theory Spec2Isabelle
  imports Complex_Main "HOL-Library.Sublist"
begin

section \<open>Python values\<close>

text \<open>
  The values that reach the emotion-analysis code of \<^verbatim>\<open>app.py\<close> are the values that
  \<^verbatim>\<open>json.loads\<close> and \<^verbatim>\<open>request.get_json\<close> produce: \<^verbatim>\<open>None\<close>, booleans, integers,
  floats, strings, lists and dictionaries with string keys.

  A string is the list of its code points, as Python's \<^verbatim>\<open>str\<close> is: natural numbers
  below \<open>0x110000\<close>, the surrogates \<open>0xD800\<close> to \<open>0xDFFF\<close> among them (\<^verbatim>\<open>json.loads\<close>
  reads the escape of a lone surrogate as that code point). \<open>lit\<close> gives the code
  points of an ASCII literal of the source.

  A float is modelled by the real number it denotes, or one of the three special values
  of IEEE arithmetic; a float literal of the source stands for its decimal value. The
  code never computes with floats: it converts, compares and returns them, and the
  order of the reals is the order Python compares finite floats (and integers with
  floats) by.
\<close>

type_synonym pystr = "nat list"

definition lit :: "string \<Rightarrow> pystr" where
  "lit s = map of_char s"

datatype pyfloat = Fin real | PosInf | NegInf | NaN

datatype pynum = PyInt int | PyFloat pyfloat

datatype pyval =
    PNone
  | PBool bool
  | PNum pynum
  | PStr pystr
  | PList "pyval list"
  | PDict "(pystr \<times> pyval) list"

text \<open>The exceptions the code can meet. \<open>ServiceError\<close> stands for whatever the
  text-generation client raises, with the text that \<^verbatim>\<open>str\<close> gives for it.\<close>

datatype exn =
    ValueError | TypeError | OverflowError | AttributeError | UnicodeEncodeError
  | ServiceError pystr

subsection \<open>Comparing numbers\<close>

fun float_lt :: "pyfloat \<Rightarrow> pyfloat \<Rightarrow> bool" where
  "float_lt NaN _ = False"
| "float_lt _ NaN = False"
| "float_lt (Fin a) (Fin b) = (a < b)"
| "float_lt (Fin _) PosInf = True"
| "float_lt (Fin _) NegInf = False"
| "float_lt PosInf _ = False"
| "float_lt NegInf NegInf = False"
| "float_lt NegInf _ = True"

fun num_value :: "pynum \<Rightarrow> pyfloat" where
  "num_value (PyInt i) = Fin (real_of_int i)"
| "num_value (PyFloat f) = f"

definition num_lt :: "pynum \<Rightarrow> pynum \<Rightarrow> bool" where
  "num_lt a b = float_lt (num_value a) (num_value b)"

text \<open>\<^verbatim>\<open>min(a, b)\<close> and \<^verbatim>\<open>max(a, b)\<close> keep the first argument unless the second is
  strictly smaller (greater); a comparison with NaN is false.\<close>

definition py_min :: "pynum \<Rightarrow> pynum \<Rightarrow> pynum" where
  "py_min a b = (if num_lt b a then b else a)"

definition py_max :: "pynum \<Rightarrow> pynum \<Rightarrow> pynum" where
  "py_max a b = (if num_lt a b then b else a)"

subsection \<open>The conversion \<^verbatim>\<open>float(value)\<close>\<close>

fun bit_length :: "nat \<Rightarrow> nat" where
  "bit_length n = (if n = 0 then 0 else Suc (bit_length (n div 2)))"

declare bit_length.simps [simp del]

text \<open>Rounding \<open>m\<close> to a multiple of \<open>2 ^ e\<close>, ties to the even multiple.\<close>

definition round_half_even :: "nat \<Rightarrow> nat \<Rightarrow> nat" where
  "round_half_even m e =
     (if e = 0 then m
      else (let q = m div 2 ^ e; r = m mod 2 ^ e; h = 2 ^ (e - 1)
            in (if h < r \<or> (r = h \<and> odd q) then q + 1 else q) * 2 ^ e))"

text \<open>An integer becomes the nearest double (53 significant bits); one that rounds to
  \<open>2 ^ 1024\<close> or more raises \<^verbatim>\<open>OverflowError\<close>.\<close>

definition int_to_float :: "int \<Rightarrow> exn + pyfloat" where
  "int_to_float i =
     (let m = nat \<bar>i\<bar>;
          r = round_half_even m (bit_length m - 53)
      in if 2 ^ 1024 \<le> r then Inl OverflowError
         else Inr (Fin (if i < 0 then - real r else real r)))"

text \<open>\<open>float_of_str\<close> is Python's parser of float literals in strings, \<open>None\<close> where it
  raises \<^verbatim>\<open>ValueError\<close>.\<close>

fun py_float :: "(pystr \<Rightarrow> pyfloat option) \<Rightarrow> pyval \<Rightarrow> exn + pyfloat" where
  "py_float float_of_str PNone = Inl TypeError"
| "py_float float_of_str (PBool b) = Inr (Fin (if b then 1 else 0))"
| "py_float float_of_str (PNum (PyInt i)) = int_to_float i"
| "py_float float_of_str (PNum (PyFloat f)) = Inr f"
| "py_float float_of_str (PStr s) =
     (case float_of_str s of None \<Rightarrow> Inl ValueError | Some f \<Rightarrow> Inr f)"
| "py_float float_of_str (PList _) = Inl TypeError"
| "py_float float_of_str (PDict _) = Inl TypeError"

subsection \<open>Strings and dictionaries\<close>

text \<open>The code points that \<^verbatim>\<open>str.strip()\<close> removes: Python's whitespace.\<close>

definition py_isspace :: "nat \<Rightarrow> bool" where
  "py_isspace c =
     ((9 \<le> c \<and> c \<le> 13) \<or> (28 \<le> c \<and> c \<le> 32) \<or> c = 133 \<or> c = 160 \<or> c = 5760
      \<or> (8192 \<le> c \<and> c \<le> 8202) \<or> c = 8232 \<or> c = 8233 \<or> c = 8239 \<or> c = 8287
      \<or> c = 12288)"

definition py_strip :: "pystr \<Rightarrow> pystr" where
  "py_strip s = rev (dropWhile py_isspace (rev (dropWhile py_isspace s)))"

text \<open>
  \<^verbatim>\<open>str.lower()\<close>: a string of ASCII code points is lowered letter by letter; for any
  other string the result is that of the Unicode case mapping, \<open>unicode_lower\<close>.
\<close>

definition ascii_lower :: "nat \<Rightarrow> nat" where
  "ascii_lower c = (if 65 \<le> c \<and> c \<le> 90 then c + 32 else c)"

definition py_lower :: "(pystr \<Rightarrow> pystr) \<Rightarrow> pystr \<Rightarrow> pystr" where
  "py_lower unicode_lower s =
     (if list_all (\<lambda>c. c < 128) s then map ascii_lower s else unicode_lower s)"

text \<open>\<^verbatim>\<open>s.find(c)\<close> and \<^verbatim>\<open>s.rfind(c)\<close> for a single character: the first (last) index
  of \<open>c\<close>, or \<open>-1\<close>.\<close>

fun py_find :: "pystr \<Rightarrow> nat \<Rightarrow> int" where
  "py_find [] c = - 1"
| "py_find (x # xs) c =
     (if x = c then 0 else (let r = py_find xs c in if r < 0 then - 1 else r + 1))"

fun py_rfind :: "pystr \<Rightarrow> nat \<Rightarrow> int" where
  "py_rfind [] c = - 1"
| "py_rfind (x # xs) c =
     (let r = py_rfind xs c in if 0 \<le> r then r + 1 else if x = c then 0 else - 1)"

text \<open>\<^verbatim>\<open>s[a:b]\<close>, used by the code only under \<open>0 \<le> a < b\<close>.\<close>

definition py_slice :: "pystr \<Rightarrow> int \<Rightarrow> int \<Rightarrow> pystr" where
  "py_slice s a b = take (nat (b - a)) (drop (nat a) s)"

text \<open>\<^verbatim>\<open>d.get(key, default)\<close>: only a dictionary has the method.\<close>

fun py_get :: "pyval \<Rightarrow> pystr \<Rightarrow> pyval \<Rightarrow> exn + pyval" where
  "py_get (PDict d) key dflt =
     Inr (case map_of d key of None \<Rightarrow> dflt | Some v \<Rightarrow> v)"
| "py_get _ key dflt = Inl AttributeError"

text \<open>Sequencing of steps that may raise: the first exception ends the sequence.\<close>

definition raising :: "exn + 'a \<Rightarrow> ('a \<Rightarrow> exn + 'b) \<Rightarrow> exn + 'b" where
  "raising r f = (case r of Inl e \<Rightarrow> Inl e | Inr v \<Rightarrow> f v)"

subsection \<open>Printing\<close>

text \<open>
  The code logs with \<^verbatim>\<open>print(f"...{x}...")\<close>. Standard output is taken to encode as
  UTF-8 with strict error handling, the default: the constant parts of the messages of
  \<^verbatim>\<open>app.py\<close> encode, and the call raises \<^verbatim>\<open>UnicodeEncodeError\<close> exactly when the text
  put in for \<open>x\<close> holds a surrogate code point. What is printed is not modelled, only
  whether printing raises.

  For a string, the text put in is the string. For any other value it is the text of
  \<^verbatim>\<open>str\<close>, in which the strings inside lists and dictionaries appear escaped. For an
  exception raised by Python itself the text is ASCII; for one of the client it is its
  text.
\<close>

definition is_surrogate :: "nat \<Rightarrow> bool" where
  "is_surrogate c = (55296 \<le> c \<and> c \<le> 57343)"

definition printable :: "pystr \<Rightarrow> bool" where
  "printable s = (\<not> list_ex is_surrogate s)"

definition py_print :: "pystr \<Rightarrow> exn + unit" where
  "py_print s = (if printable s then Inr () else Inl UnicodeEncodeError)"

fun print_val :: "pyval \<Rightarrow> exn + unit" where
  "print_val (PStr s) = py_print s"
| "print_val _ = Inr ()"

fun print_exn :: "exn \<Rightarrow> exn + unit" where
  "print_exn (ServiceError msg) = py_print msg"
| "print_exn _ = Inr ()"

section \<open>The pattern validator\<close>

definition safe_float ::
  "(pystr \<Rightarrow> pyfloat option) \<Rightarrow> pyval \<Rightarrow> pynum \<Rightarrow> pynum \<Rightarrow> pynum \<Rightarrow> exn + pynum" where
  "safe_float float_of_str v dflt min_val max_val =
     (case py_float float_of_str v of
        Inr result \<Rightarrow> Inr (py_max min_val (py_min max_val (PyFloat result)))
      | Inl e \<Rightarrow> (if e = ValueError \<or> e = TypeError then Inr dflt else Inl e))"

section \<open>The rule-based classifier\<close>

record movement_pattern =
  speed :: pynum
  cohesion :: pynum
  separation :: pynum
  curve :: pynum
  behavior :: pyval

record pattern_data =
  pattern :: movement_pattern
  interp :: pyval

definition default_pattern :: movement_pattern where
  "default_pattern =
     \<lparr>speed = PyFloat (Fin 0.8), cohesion = PyFloat (Fin 0.12), separation = PyInt 25,
      curve = PyFloat (Fin 0.3), behavior = PStr (lit ''standard'')\<rparr>"

text \<open>\<^verbatim>\<open>any(word in text_lower for word in words)\<close>\<close>

definition any_in :: "pystr list \<Rightarrow> pystr \<Rightarrow> bool" where
  "any_in words text_lower = list_ex (\<lambda>word. sublist word text_lower) words"

definition high_energy_words :: "pystr list" where
  "high_energy_words =
     map lit [''excited'', ''energetic'', ''manic'', ''hyper'', ''frantic'', ''wild'']"

definition anger_words :: "pystr list" where
  "anger_words = map lit [''angry'', ''rage'', ''furious'', ''aggressive'', ''violent'']"

definition sadness_words :: "pystr list" where
  "sadness_words = map lit [''sad'', ''depressed'', ''melancholy'', ''sorrow'', ''grief'']"

definition anxiety_words :: "pystr list" where
  "anxiety_words = map lit [''anxious'', ''nervous'', ''scared'', ''fear'', ''panic'']"

definition love_words :: "pystr list" where
  "love_words = map lit [''love'', ''affection'', ''romance'', ''tender'', ''caring'']"

definition joy_words :: "pystr list" where
  "joy_words = map lit [''happy'', ''joy'', ''cheerful'', ''bliss'', ''elated'']"

definition calm_words :: "pystr list" where
  "calm_words = map lit [''calm'', ''peaceful'', ''serene'', ''tranquil'', ''zen'']"

definition confusion_words :: "pystr list" where
  "confusion_words = map lit [''confused'', ''chaos'', ''disorder'', ''random'', ''lost'']"

definition analyze_emotion_simple :: "(pystr \<Rightarrow> pystr) \<Rightarrow> pystr \<Rightarrow> pattern_data" where
  "analyze_emotion_simple unicode_lower emotion_text =
     (let text_lower = py_lower unicode_lower emotion_text;
          p = default_pattern;
          msg = lit ''Simple pattern for '' @ lit [CHR 0x27] @ emotion_text @ lit [CHR 0x27]
      in
      if any_in high_energy_words text_lower then
        \<lparr>pattern = p\<lparr>speed := PyFloat (Fin 1.8), curve := PyFloat (Fin 0.8),
                      behavior := PStr (lit ''swarm'')\<rparr>,
         interp = PStr (lit ''High energy, chaotic movement'')\<rparr>
      else if any_in anger_words text_lower then
        \<lparr>pattern = p\<lparr>speed := PyFloat (Fin 1.5), separation := PyInt 45,
                      behavior := PStr (lit ''predator'')\<rparr>,
         interp = PStr (lit ''Aggressive, confrontational movement'')\<rparr>
      else if any_in sadness_words text_lower then
        \<lparr>pattern = p\<lparr>speed := PyFloat (Fin 0.4), curve := PyFloat (Fin 0.1),
                      cohesion := PyFloat (Fin 0.05)\<rparr>,
         interp = PStr (lit ''Slow, isolated, downward movement'')\<rparr>
      else if any_in anxiety_words text_lower then
        \<lparr>pattern = p\<lparr>speed := PyFloat (Fin 1.2), separation := PyInt 35,
                      curve := PyFloat (Fin 0.6), behavior := PStr (lit ''predator'')\<rparr>,
         interp = PStr (lit ''Nervous, erratic, avoidant movement'')\<rparr>
      else if any_in love_words text_lower then
        \<lparr>pattern = p\<lparr>speed := PyFloat (Fin 0.9), cohesion := PyFloat (Fin 0.25),
                      separation := PyInt 15, behavior := PStr (lit ''standard'')\<rparr>,
         interp = PStr (lit ''Gentle, clustering, harmonious movement'')\<rparr>
      else if any_in joy_words text_lower then
        \<lparr>pattern = p\<lparr>speed := PyFloat (Fin 1.3), cohesion := PyFloat (Fin 0.18),
                      curve := PyFloat (Fin 0.5), behavior := PStr (lit ''swarm'')\<rparr>,
         interp = PStr (lit ''Joyful, bouncy, grouped movement'')\<rparr>
      else if any_in calm_words text_lower then
        \<lparr>pattern = p\<lparr>speed := PyFloat (Fin 0.6), curve := PyFloat (Fin 0.2),
                      cohesion := PyFloat (Fin 0.08)\<rparr>,
         interp = PStr (lit ''Slow, peaceful, flowing movement'')\<rparr>
      else if any_in confusion_words text_lower then
        \<lparr>pattern = p\<lparr>speed := PyFloat (Fin 1.0), curve := PyFloat (Fin 0.9),
                      separation := PyInt 20, behavior := PStr (lit ''spiral'')\<rparr>,
         interp = PStr (lit ''Chaotic, unpredictable movement'')\<rparr>
      else \<lparr>pattern = p, interp = PStr msg\<rparr>)"

section \<open>The AI pattern generator\<close>

definition join_lines :: "pystr list \<Rightarrow> pystr" where
  "join_lines ls = concat (map (\<lambda>l. l @ [10]) ls)"

definition prompt :: "pystr \<Rightarrow> pystr" where
  "prompt emotion_text =
     [10] @ join_lines
       [lit ''    Analyze this emotion/feeling: '' @ lit [CHR 0x22] @ emotion_text
          @ lit [CHR 0x22],
        lit ''    '',
        lit ''    Based on this emotion, create movement parameters for animated dots/particles that would visually represent this feeling.'',
        lit ''    '',
        lit ''    Consider:'',
        lit ''    - How fast should dots move? (speed: 0.2 to 2.0)'',
        lit ''    - How much should they cluster together? (cohesion: 0.0 to 0.3) '',
        lit ''    - How much should they avoid each other? (separation: 10 to 60)'',
        lit ''    - How much random/organic movement? (curve: 0.0 to 1.0)'',
        lit ''    '',
        lit ''    Also suggest which behavior mode best fits:'',
        lit (''    - '' @ [CHR 0x22] @ ''standard'' @ [CHR 0x22] @ '' - organic flowing''),
        lit (''    - '' @ [CHR 0x22] @ ''predator'' @ [CHR 0x22] @ '' - chase/flee dynamics  ''),
        lit (''    - '' @ [CHR 0x22] @ ''swarm'' @ [CHR 0x22] @ '' - group movement''),
        lit (''    - '' @ [CHR 0x22] @ ''spiral'' @ [CHR 0x22] @ '' - circular/spiral flow''),
        lit ''    '',
        lit ''    Respond ONLY with valid JSON in this exact format:'',
        lit ''    {'',
        lit (''        '' @ [CHR 0x22] @ ''speed'' @ [CHR 0x22] @ '': 1.2,''),
        lit (''        '' @ [CHR 0x22] @ ''cohesion'' @ [CHR 0x22] @ '': 0.15,''),
        lit (''        '' @ [CHR 0x22] @ ''separation'' @ [CHR 0x22] @ '': 25,''),
        lit (''        '' @ [CHR 0x22] @ ''curve'' @ [CHR 0x22] @ '': 0.4,''),
        lit (''        '' @ [CHR 0x22] @ ''behavior'' @ [CHR 0x22] @ '': '' @ [CHR 0x22]
          @ ''standard'' @ [CHR 0x22] @ '',''),
        lit (''        '' @ [CHR 0x22] @ ''interpretation'' @ [CHR 0x22] @ '': '' @ [CHR 0x22]
          @ ''brief description of how this represents the emotion'' @ [CHR 0x22]),
        lit ''    }'']
     @ lit ''    ''"

definition valid_behaviors :: "pyval list" where
  "valid_behaviors =
     [PStr (lit ''standard''), PStr (lit ''predator''), PStr (lit ''swarm''),
      PStr (lit ''spiral'')]"

text \<open>
  The body of the \<^verbatim>\<open>try\<close> block of \<^verbatim>\<open>analyze_emotion_with_ai\<close>: \<open>Inl\<close> is the exception
  that leaves it. \<open>json_loads\<close> is \<^verbatim>\<open>json.loads\<close>, \<open>None\<close> where it raises.
\<close>

definition parse_ai_response ::
  "(pystr \<Rightarrow> pyval option) \<Rightarrow> (pystr \<Rightarrow> pyfloat option) \<Rightarrow> pystr \<Rightarrow> pystr
     \<Rightarrow> exn + pattern_data" where
  "parse_ai_response json_loads float_of_str emotion_text response_text =
     (let start = py_find response_text (of_char (CHR ''{''));
          stop = py_rfind response_text (of_char (CHR ''}'')) + 1
      in
      if 0 \<le> start \<and> start < stop then
        (case json_loads (py_slice response_text start stop) of
           None \<Rightarrow> Inl ValueError
         | Some ai_data \<Rightarrow>
             raising (py_get ai_data (lit ''speed'') (PNum (PyFloat (Fin 1.0)))) (\<lambda>v1.
             raising (safe_float float_of_str v1
                        (PyFloat (Fin 1.0)) (PyFloat (Fin 0.2)) (PyFloat (Fin 2.0))) (\<lambda>sp.
             raising (py_get ai_data (lit ''cohesion'') (PNum (PyFloat (Fin 0.12)))) (\<lambda>v2.
             raising (safe_float float_of_str v2
                        (PyFloat (Fin 0.12)) (PyFloat (Fin 0.0)) (PyFloat (Fin 0.3))) (\<lambda>co.
             raising (py_get ai_data (lit ''separation'') (PNum (PyInt 25))) (\<lambda>v3.
             raising (safe_float float_of_str v3 (PyInt 25) (PyInt 10) (PyInt 60)) (\<lambda>se.
             raising (py_get ai_data (lit ''curve'') (PNum (PyFloat (Fin 0.3)))) (\<lambda>v4.
             raising (safe_float float_of_str v4
                        (PyFloat (Fin 0.3)) (PyFloat (Fin 0.0)) (PyFloat (Fin 1.0))) (\<lambda>cu.
             raising (py_get ai_data (lit ''behavior'') (PStr (lit ''standard''))) (\<lambda>be.
               (let p = \<lparr>speed = sp, cohesion = co, separation = se, curve = cu,
                         behavior = be\<rparr>;
                    p' = (if behavior p \<notin> set valid_behaviors
                          then p\<lparr>behavior := PStr (lit ''standard'')\<rparr> else p)
                in raising
                     (py_get ai_data (lit ''interpretation'')
                        (PStr (lit ''AI interpretation of '' @ lit [CHR 0x22] @ emotion_text
                                 @ lit [CHR 0x22])))
                     (\<lambda>iv. Inr \<lparr>pattern = p', interp = iv\<rparr>))))))))))))
      else Inl ValueError)"

text \<open>
  \<open>model\<close> is the text-generation call \<^verbatim>\<open>model.generate_content(prompt).text\<close>: it
  raises or returns the response text. Its exceptions leave the function, and so does
  that of printing the response, which comes before the \<^verbatim>\<open>try\<close> block. The exceptions
  of the \<^verbatim>\<open>try\<close> block are caught there, printed, and answered by the rule-based
  classifier.
\<close>

definition analyze_emotion_with_ai ::
  "(pystr \<Rightarrow> pystr) \<Rightarrow> (pystr \<Rightarrow> pyval option) \<Rightarrow> (pystr \<Rightarrow> pyfloat option)
     \<Rightarrow> (pystr \<Rightarrow> exn + pystr) \<Rightarrow> pystr \<Rightarrow> exn + pattern_data" where
  "analyze_emotion_with_ai unicode_lower json_loads float_of_str model emotion_text =
     raising (model (prompt emotion_text)) (\<lambda>text.
       (let response_text = py_strip text
        in raising (py_print response_text) (\<lambda>_.
             (case parse_ai_response json_loads float_of_str emotion_text response_text of
                Inr r \<Rightarrow> Inr r
              | Inl e \<Rightarrow>
                  raising (print_exn e) (\<lambda>_.
                    Inr (analyze_emotion_simple unicode_lower emotion_text))))))"

section \<open>The resolution entry point\<close>

text \<open>
  The answers of \<^verbatim>\<open>generate_emotion_pattern\<close>: the body of the 200 answer (\<open>success\<close>,
  \<open>emotion\<close>, \<open>pattern\<close>, \<open>interpretation\<close>, \<open>ai_used\<close>), the 400 answer with its
  message, and the 500 answer of the outer handler with the exception it caught.
  \<open>data\<close> is the parsed request body and \<open>model\<close> the global of that name, \<open>None\<close>
  when the client could not be set up.

  \<open>resolve\<close> is the body of the outer \<^verbatim>\<open>try\<close> block from the first \<^verbatim>\<open>print\<close> on, for a
  non-empty emotion text: \<open>Inl\<close> is the exception that reaches the outer handler.
\<close>

datatype response =
    Ok200 (success: bool) (emotion: pystr) (resp_pattern: movement_pattern)
          (resp_interpretation: pyval) (ai_used: bool)
  | Err400 pystr
  | Err500 exn

definition resolve ::
  "(pystr \<Rightarrow> pystr) \<Rightarrow> (pystr \<Rightarrow> pyval option) \<Rightarrow> (pystr \<Rightarrow> pyfloat option)
     \<Rightarrow> (pystr \<Rightarrow> exn + pystr) option \<Rightarrow> pystr \<Rightarrow> exn + pattern_data" where
  "resolve unicode_lower json_loads float_of_str model emotion_text =
     raising (py_print emotion_text) (\<lambda>_.
     raising
       (case model of
          Some m \<Rightarrow>
            (case analyze_emotion_with_ai unicode_lower json_loads float_of_str m
                    emotion_text of
               Inr r \<Rightarrow> Inr r
             | Inl e \<Rightarrow>
                 raising (print_exn e) (\<lambda>_.
                   Inr (analyze_emotion_simple unicode_lower emotion_text)))
        | None \<Rightarrow> Inr (analyze_emotion_simple unicode_lower emotion_text))
       (\<lambda>pattern_data.
     raising (print_val (interp pattern_data)) (\<lambda>_. Inr pattern_data)))"

definition generate_emotion_pattern ::
  "(pystr \<Rightarrow> pystr) \<Rightarrow> (pystr \<Rightarrow> pyval option) \<Rightarrow> (pystr \<Rightarrow> pyfloat option)
     \<Rightarrow> (pystr \<Rightarrow> exn + pystr) option \<Rightarrow> pyval \<Rightarrow> response" where
  "generate_emotion_pattern unicode_lower json_loads float_of_str model data =
     (case py_get data (lit ''emotion'') (PStr []) of
        Inl e \<Rightarrow> Err500 e
      | Inr (PStr s) \<Rightarrow>
          (let emotion_text = py_strip s
           in if emotion_text = [] then Err400 (lit ''Please provide emotion text'')
              else
                (case resolve unicode_lower json_loads float_of_str model emotion_text of
                   Inl e \<Rightarrow> Err500 e
                 | Inr pattern_data \<Rightarrow>
                     Ok200 True emotion_text (pattern pattern_data)
                       (interp pattern_data) (model \<noteq> None)))
      | Inr _ \<Rightarrow> Err500 AttributeError)"

section \<open>Properties and sample inputs\<close>

text \<open>A number lies in the closed interval from \<open>lo\<close> to \<open>hi\<close>: it is an integer or a
  finite float, and its value is between the bounds.\<close>

definition num_between :: "pynum \<Rightarrow> real \<Rightarrow> real \<Rightarrow> bool" where
  "num_between v lo hi = (case num_value v of Fin r \<Rightarrow> lo \<le> r \<and> r \<le> hi | _ \<Rightarrow> False)"

text \<open>The invariant of a movement pattern: every field in its declared range.\<close>

definition valid_pattern :: "movement_pattern \<Rightarrow> bool" where
  "valid_pattern p =
     (num_between (speed p) 0.2 2.0 \<and> num_between (cohesion p) 0.0 0.3 \<and>
      num_between (separation p) 10 60 \<and> num_between (curve p) 0.0 1.0 \<and>
      behavior p \<in> {PStr (lit ''standard''), PStr (lit ''predator''), PStr (lit ''swarm''),
                     PStr (lit ''spiral'')})"

text \<open>The slice of a response text that the generator hands to the JSON parser.\<close>

definition json_slice :: "pystr \<Rightarrow> pystr" where
  "json_slice response_text =
     py_slice response_text (py_find response_text (of_char (CHR ''{'')))
       (py_rfind response_text (of_char (CHR ''}'')) + 1)"

text \<open>A response text that cannot be reduced to a JSON value: there is no first \<open>{\<close>
  followed by a last \<open>}\<close>, or the slice between them does not parse.\<close>

definition unreducible :: "(pystr \<Rightarrow> pyval option) \<Rightarrow> pystr \<Rightarrow> bool" where
  "unreducible json_loads response_text =
     (let start = py_find response_text (of_char (CHR ''{''));
          stop = py_rfind response_text (of_char (CHR ''}'')) + 1
      in \<not> (0 \<le> start \<and> start < stop)
         \<or> json_loads (py_slice response_text start stop) = None)"

text \<open>The lower-cased text contains one of the words.\<close>

definition hits :: "(pystr \<Rightarrow> pystr) \<Rightarrow> pystr list \<Rightarrow> pystr \<Rightarrow> bool" where
  "hits unicode_lower words t = (\<exists>w \<in> set words. sublist w (py_lower unicode_lower t))"

text \<open>The templated interpretation of the generator, and what a value under
  \<open>interpretation\<close> needs for the request to be answered: its printing must not raise.\<close>

definition ai_default_interp :: "pystr \<Rightarrow> pyval" where
  "ai_default_interp emotion_text =
     PStr (lit ''AI interpretation of '' @ lit [CHR 0x22] @ emotion_text @ lit [CHR 0x22])"

definition nonempty_str :: "pyval \<Rightarrow> bool" where
  "nonempty_str v = (case v of PStr s \<Rightarrow> s \<noteq> [] | _ \<Rightarrow> False)"

text \<open>A request body with the field \<open>emotion\<close>.\<close>

definition request :: "pystr \<Rightarrow> pyval" where
  "request s = PDict [(lit ''emotion'', PStr s)]"

text \<open>
  Sample collaborators: a case mapping that changes nothing, a parser that rejects every
  text, a float parser that rejects every string, a client whose call raises, and a
  client that answers without any JSON.
\<close>

definition keep_case :: "pystr \<Rightarrow> pystr" where
  "keep_case s = s"

definition no_json :: "pystr \<Rightarrow> pyval option" where
  "no_json s = None"

definition no_float :: "pystr \<Rightarrow> pyfloat option" where
  "no_float s = None"

definition failing_model :: "pystr \<Rightarrow> exn + pystr" where
  "failing_model p = Inl (ServiceError (lit ''API key not valid''))"

definition garbage_model :: "pystr \<Rightarrow> exn + pystr" where
  "garbage_model p = Inr (lit ''I am not sure what you mean.'')"

text \<open>A client that answers \<^verbatim>\<open>{"interpretation": ""}\<close>, and a parser that reads this
  one text.\<close>

definition blank_response :: pystr where
  "blank_response = lit (''{'' @ [CHR 0x22] @ ''interpretation'' @ [CHR 0x22] @ '': ''
                           @ [CHR 0x22, CHR 0x22] @ ''}'')"

definition blank_model :: "pystr \<Rightarrow> exn + pystr" where
  "blank_model p = Inr blank_response"

definition blank_json :: "pystr \<Rightarrow> pyval option" where
  "blank_json s =
     (if s = blank_response then Some (PDict [(lit ''interpretation'', PStr [])]) else None)"

text \<open>A client that answers \<^verbatim>\<open>{}\<close>, and a parser that reads this one text.\<close>

definition bare_model :: "pystr \<Rightarrow> exn + pystr" where
  "bare_model p = Inr (lit ''{}'')"

definition bare_json :: "pystr \<Rightarrow> pyval option" where
  "bare_json s = (if s = lit ''{}'' then Some (PDict []) else None)"


section \<open>Literals, printing and brace search\<close>

lemma lit_Nil: "lit [] = []"
  by (simp add: lit_def)

lemma lit_Cons: "lit (c # cs) = of_char c # lit cs"
  by (simp add: lit_def)

lemma lit_eq_iff [simp]: "lit a = lit b \<longleftrightarrow> a = b"
  by (simp add: lit_def inj_map_eq_map inj_of_char)

lemma lit_empty_iff [simp]: "lit a = [] \<longleftrightarrow> a = []"
  by (simp add: lit_def)

lemma lit_append: "lit (a @ b) = lit a @ lit b"
  by (simp add: lit_def)

lemma printable_Nil [simp]: "printable []"
  by (simp add: printable_def)

lemma printable_Cons [simp]: "printable (c # s) \<longleftrightarrow> \<not> is_surrogate c \<and> printable s"
  by (simp add: printable_def)

lemma printable_append [simp]: "printable (a @ b) \<longleftrightarrow> printable a \<and> printable b"
  by (induction a) simp_all

lemma printable_lit [simp]: "printable (lit s)"
proof (induction s)
  case Nil
  show ?case by (simp add: lit_Nil)
next
  case (Cons c s)
  have "(of_char c :: nat) < 55296"
    using nat_of_char_less_256[of c] by linarith
  then have "\<not> is_surrogate (of_char c)" by (simp add: is_surrogate_def)
  then show ?case using Cons by (simp add: lit_Cons)
qed

lemma py_print_lit [simp]: "py_print (lit s) = Inr ()"
  by (simp add: py_print_def)

lemma py_print_Inr: "py_print s = Inr u \<longleftrightarrow> printable s"
  by (simp add: py_print_def)

lemma py_print_Inl: "py_print s = Inl e \<longleftrightarrow> \<not> printable s \<and> e = UnicodeEncodeError"
  by (auto simp: py_print_def)

lemma print_exn_Inl: "print_exn e = Inl e' \<Longrightarrow> e' = UnicodeEncodeError"
  by (cases e) (auto simp: py_print_def split: if_splits)

lemma print_val_Inl: "print_val v = Inl e \<Longrightarrow> e = UnicodeEncodeError"
  by (cases v) (auto simp: py_print_def split: if_splits)

lemma raising_Inr:
  assumes "raising r f = Inr y"
  obtains v where "r = Inr v" and "f v = Inr y"
  using assms by (cases r) (simp_all add: raising_def)

lemma raising_Inl:
  assumes "raising r f = Inl e"
  obtains "r = Inl e" | v where "r = Inr v" and "f v = Inl e"
  using assms by (cases r) (simp_all add: raising_def)

lemma raising_simps [simp]:
  "raising (Inl e) f = Inl e" "raising (Inr v) f = f v"
  by (simp_all add: raising_def)

lemma strip_blank:
  assumes "\<forall>c \<in> set s. py_isspace c"
  shows "py_strip s = []"
proof -
  have d: "dropWhile py_isspace s = []" using assms by (simp add: dropWhile_eq_Nil_conv)
  show ?thesis unfolding py_strip_def d by simp
qed

lemma printable_strip: "printable s \<Longrightarrow> printable (py_strip s)"
proof -
  assume p: "printable s"
  have sub: "set (py_strip s) \<subseteq> set s"
    by (auto simp: py_strip_def dest!: set_dropWhileD)
  show ?thesis using p sub by (auto simp: printable_def list_ex_iff)
qed

lemma py_find_absent: "c \<notin> set s \<Longrightarrow> py_find s c = - 1"
  by (induction s) (auto simp: Let_def)

lemma py_rfind_absent: "c \<notin> set s \<Longrightarrow> py_rfind s c = - 1"
  by (induction s) (auto simp: Let_def)

lemma no_open_brace_unreducible:
  "of_char (CHR ''{'') \<notin> set rt \<Longrightarrow> unreducible json_loads rt"
  by (simp add: unreducible_def py_find_absent)

lemma no_close_brace_unreducible:
  "of_char (CHR ''}'') \<notin> set rt \<Longrightarrow> unreducible json_loads rt"
  by (simp add: unreducible_def py_rfind_absent)

section \<open>The conversion of large integers\<close>

lemma bit_length_gt: "2 ^ k \<le> m \<Longrightarrow> k < bit_length m"
proof (induction k arbitrary: m)
  case 0
  then show ?case by (subst bit_length.simps) simp
next
  case (Suc k)
  then have "2 ^ k \<le> m div 2" by simp
  then have "k < bit_length (m div 2)" by (rule Suc.IH)
  moreover have "0 < (2::nat) ^ Suc k" by simp
  then have "m \<noteq> 0" using Suc.prems by linarith
  ultimately show ?case by (subst bit_length.simps) simp
qed

lemma bit_length_lower: "0 < m \<Longrightarrow> 2 ^ (bit_length m - 1) \<le> m"
proof (induction m rule: bit_length.induct)
  case (1 n)
  show ?case
  proof (cases "n div 2 = 0")
    case True
    then have "bit_length (n div 2) = 0" by (simp add: bit_length.simps)
    then have "bit_length n = 1" using "1.prems" by (subst bit_length.simps) simp
    then show ?thesis using "1.prems" by simp
  next
    case False
    then have pos: "0 < n div 2" by simp
    have ih: "2 ^ (bit_length (n div 2) - 1) \<le> n div 2"
      using "1.IH" "1.prems" pos by simp
    have bl: "bit_length n = Suc (bit_length (n div 2))"
      using "1.prems" by (subst bit_length.simps) simp
    have "0 < bit_length (n div 2)" using pos by (subst bit_length.simps) simp
    then have "bit_length n - 1 = Suc (bit_length (n div 2) - 1)" using bl by simp
    then have "(2::nat) ^ (bit_length n - 1) = 2 * 2 ^ (bit_length (n div 2) - 1)" by simp
    also have "\<dots> \<le> 2 * (n div 2)" using ih by simp
    also have "\<dots> \<le> n" by simp
    finally show ?thesis .
  qed
qed

lemma round_half_even_lower: "(m div 2 ^ e) * 2 ^ e \<le> round_half_even m e"
  by (simp add: round_half_even_def Let_def)

lemma int_to_float_overflow:
  assumes "2 ^ 1024 \<le> \<bar>i\<bar>"
  shows "int_to_float i = Inl OverflowError"
proof -
  define m where "m = nat \<bar>i\<bar>"
  define e where "e = bit_length m - 53"
  have m: "2 ^ 1024 \<le> m" using assms by (simp add: m_def le_nat_iff)
  then have L: "1024 < bit_length m" by (rule bit_length_gt)
  have "0 < m" using m by (metis less_le_trans zero_less_numeral zero_less_power)
  then have low: "2 ^ (bit_length m - 1) \<le> m" by (rule bit_length_lower)
  have split: "bit_length m - 1 = 52 + e" using L by (simp add: e_def)
  have "(2::nat) ^ (52 + e) \<le> m" using low unfolding split .
  then have "(2::nat) ^ 52 * 2 ^ e \<le> m" by (simp only: power_add)
  then have "(2::nat) ^ 52 \<le> m div 2 ^ e"
    by (simp add: less_eq_div_iff_mult_less_eq)
  then have "(2::nat) ^ 52 * 2 ^ e \<le> (m div 2 ^ e) * 2 ^ e" by simp
  also have "\<dots> \<le> round_half_even m e" by (rule round_half_even_lower)
  finally have "(2::nat) ^ (52 + e) \<le> round_half_even m e" by (simp add: power_add)
  moreover have "(2::nat) ^ 1024 \<le> 2 ^ (52 + e)"
    using L by (intro power_increasing) (simp_all add: e_def)
  ultimately have "(2::nat) ^ 1024 \<le> round_half_even m e" by (rule order_trans[rotated])
  then show ?thesis
    unfolding int_to_float_def Let_def m_def[symmetric] e_def[symmetric] by simp
qed

lemma bit_length_le: "m < 2 ^ k \<Longrightarrow> bit_length m \<le> k"
proof (induction k arbitrary: m)
  case 0
  then show ?case by (subst bit_length.simps) simp
next
  case (Suc k)
  then have "m div 2 < 2 ^ k" by simp
  then have "bit_length (m div 2) \<le> k" by (rule Suc.IH)
  then show ?case by (subst bit_length.simps) simp
qed

lemma int_to_float_exact:
  assumes "\<bar>i\<bar> < 2 ^ 53"
  shows "int_to_float i = Inr (Fin (real_of_int i))"
proof -
  define m where "m = nat \<bar>i\<bar>"
  have m: "m < 2 ^ 53" using assms by (simp add: m_def nat_less_iff)
  then have "bit_length m \<le> 53" by (rule bit_length_le)
  then have r: "round_half_even m (bit_length m - 53) = m"
    by (simp add: round_half_even_def)
  have "(2::nat) ^ 53 \<le> 2 ^ 1024" by (rule power_increasing) simp_all
  then have small: "\<not> 2 ^ 1024 \<le> m" using m by linarith
  have "(if i < 0 then - real m else real m) = real_of_int i" by (simp add: m_def)
  then show ?thesis
    unfolding int_to_float_def Let_def m_def[symmetric] r using small by simp
qed

section \<open>The validator\<close>

text \<open>
  C3. The validator is claimed to return the clamp of every numeric input and never to
  raise. It catches \<^verbatim>\<open>ValueError\<close> and \<^verbatim>\<open>TypeError\<close> only: on the integer
  \<open>10 ^ 400\<close>, which \<^verbatim>\<open>json.loads\<close> reads from a JSON number of 401 digits, the
  conversion raises \<^verbatim>\<open>OverflowError\<close> and the validator lets it through.
\<close>

theorem safe_float_overflow_escapes:
  "safe_float float_of_str (PNum (PyInt (10 ^ 400))) (PyFloat (Fin 1.0))
     (PyFloat (Fin 0.2)) (PyFloat (Fin 2.0)) = Inl OverflowError"
proof -
  have "int_to_float (10 ^ 400) = Inl OverflowError"
    by (rule int_to_float_overflow) simp
  then show ?thesis by (simp add: safe_float_def)
qed

text \<open>Whenever the validator returns, its result is in range, for a default in range.\<close>

lemma clamp_between:
  assumes "num_value lo = Fin a" and "num_value hi = Fin b" and "a \<le> b"
  shows "num_between (py_max lo (py_min hi (PyFloat f))) a b"
  using assms
  by (cases f) (auto simp: py_max_def py_min_def num_lt_def num_between_def)

lemma safe_float_between:
  assumes "num_value lo = Fin a" and "num_value hi = Fin b" and "a \<le> b"
    and "num_between d a b" and "safe_float float_of_str v d lo hi = Inr r"
  shows "num_between r a b"
proof (cases "py_float float_of_str v")
  case (Inl e)
  then have "r = d" using assms(5) by (simp add: safe_float_def split: if_splits)
  then show ?thesis using assms(4) by simp
next
  case (Inr f)
  then have "r = py_max lo (py_min hi (PyFloat f))"
    using assms(5) by (simp add: safe_float_def)
  then show ?thesis using clamp_between[OF assms(1-3)] by simp
qed

text \<open>The validator raises only \<^verbatim>\<open>OverflowError\<close>, and only on an integer; where the
  conversion raises one of the two caught exceptions, it returns the default.\<close>

lemma safe_float_raises_only_overflow:
  assumes "safe_float float_of_str v d lo hi = Inl e"
  shows "e = OverflowError \<and> (\<exists>i. v = PNum (PyInt i))"
  using assms
  by (cases "(float_of_str, v)" rule: py_float.cases)
     (auto simp: safe_float_def int_to_float_def Let_def split: option.splits if_splits)

lemma safe_float_default:
  assumes "py_float float_of_str v = Inl ValueError \<or> py_float float_of_str v = Inl TypeError"
  shows "safe_float float_of_str v d lo hi = Inr d"
  using assms by (auto simp: safe_float_def)

section \<open>The extraction of the AI JSON\<close>

lemma py_get_Inl: "py_get d k v = Inl e \<Longrightarrow> e = AttributeError"
  by (cases d) simp_all

lemma py_get_Inr:
  assumes "py_get d k v = Inr x"
  obtains ai where "d = PDict ai" and "x = (case map_of ai k of None \<Rightarrow> v | Some y \<Rightarrow> y)"
  using assms by (cases d) auto

text \<open>What a normal return of the \<^verbatim>\<open>try\<close> block says about its steps.\<close>

lemma parse_ai_response_Inr:
  assumes "parse_ai_response json_loads float_of_str emotion_text response_text = Inr res"
  obtains ai sp co se cu be v1 v2 v3 v4 where
    "json_loads (json_slice response_text) = Some (PDict ai)"
    and "safe_float float_of_str v1 (PyFloat (Fin 1.0)) (PyFloat (Fin 0.2)) (PyFloat (Fin 2.0)) = Inr sp"
    and "safe_float float_of_str v2 (PyFloat (Fin 0.12)) (PyFloat (Fin 0.0)) (PyFloat (Fin 0.3)) = Inr co"
    and "safe_float float_of_str v3 (PyInt 25) (PyInt 10) (PyInt 60) = Inr se"
    and "safe_float float_of_str v4 (PyFloat (Fin 0.3)) (PyFloat (Fin 0.0)) (PyFloat (Fin 1.0)) = Inr cu"
    and "res = \<lparr>pattern =
                 (if be \<notin> set valid_behaviors
                  then \<lparr>speed = sp, cohesion = co, separation = se, curve = cu,
                         behavior = PStr (lit ''standard'')\<rparr>
                  else \<lparr>speed = sp, cohesion = co, separation = se, curve = cu,
                         behavior = be\<rparr>),
                interp = (case map_of ai (lit ''interpretation'') of
                            None \<Rightarrow> ai_default_interp emotion_text | Some v \<Rightarrow> v)\<rparr>"
proof -
  from assms obtain ai_data where
    js: "json_loads (json_slice response_text) = Some ai_data" and
    body: "raising (py_get ai_data (lit ''speed'') (PNum (PyFloat (Fin 1.0)))) (\<lambda>v1.
             raising (safe_float float_of_str v1
                        (PyFloat (Fin 1.0)) (PyFloat (Fin 0.2)) (PyFloat (Fin 2.0))) (\<lambda>sp.
             raising (py_get ai_data (lit ''cohesion'') (PNum (PyFloat (Fin 0.12)))) (\<lambda>v2.
             raising (safe_float float_of_str v2
                        (PyFloat (Fin 0.12)) (PyFloat (Fin 0.0)) (PyFloat (Fin 0.3))) (\<lambda>co.
             raising (py_get ai_data (lit ''separation'') (PNum (PyInt 25))) (\<lambda>v3.
             raising (safe_float float_of_str v3 (PyInt 25) (PyInt 10) (PyInt 60)) (\<lambda>se.
             raising (py_get ai_data (lit ''curve'') (PNum (PyFloat (Fin 0.3)))) (\<lambda>v4.
             raising (safe_float float_of_str v4
                        (PyFloat (Fin 0.3)) (PyFloat (Fin 0.0)) (PyFloat (Fin 1.0))) (\<lambda>cu.
             raising (py_get ai_data (lit ''behavior'') (PStr (lit ''standard''))) (\<lambda>be.
               (let p = \<lparr>speed = sp, cohesion = co, separation = se, curve = cu,
                         behavior = be\<rparr>;
                    p' = (if behavior p \<notin> set valid_behaviors
                          then p\<lparr>behavior := PStr (lit ''standard'')\<rparr> else p)
                in raising
                     (py_get ai_data (lit ''interpretation'')
                        (PStr (lit ''AI interpretation of '' @ lit [CHR 0x22] @ emotion_text
                                 @ lit [CHR 0x22])))
                     (\<lambda>iv. Inr \<lparr>pattern = p', interp = iv\<rparr>))))))))))) = Inr res"
    unfolding parse_ai_response_def json_slice_def Let_def
    by (auto split: if_splits option.splits)
  from body obtain v1 sp v2 co v3 se v4 cu be where
    sp: "safe_float float_of_str v1 (PyFloat (Fin 1.0)) (PyFloat (Fin 0.2)) (PyFloat (Fin 2.0)) = Inr sp"
    and co: "safe_float float_of_str v2 (PyFloat (Fin 0.12)) (PyFloat (Fin 0.0)) (PyFloat (Fin 0.3)) = Inr co"
    and se: "safe_float float_of_str v3 (PyInt 25) (PyInt 10) (PyInt 60) = Inr se"
    and cu: "safe_float float_of_str v4 (PyFloat (Fin 0.3)) (PyFloat (Fin 0.0)) (PyFloat (Fin 1.0)) = Inr cu"
    and rest: "(let p = \<lparr>speed = sp, cohesion = co, separation = se, curve = cu,
                         behavior = be\<rparr>;
                    p' = (if behavior p \<notin> set valid_behaviors
                          then p\<lparr>behavior := PStr (lit ''standard'')\<rparr> else p)
                in raising
                     (py_get ai_data (lit ''interpretation'')
                        (PStr (lit ''AI interpretation of '' @ lit [CHR 0x22] @ emotion_text
                                 @ lit [CHR 0x22])))
                     (\<lambda>iv. Inr \<lparr>pattern = p', interp = iv\<rparr>)) = Inr res"
    by (elim raising_Inr)
  from rest obtain iv where
    iv: "py_get ai_data (lit ''interpretation'') (ai_default_interp emotion_text) = Inr iv"
    and res: "res = \<lparr>pattern =
                 (if be \<notin> set valid_behaviors
                  then \<lparr>speed = sp, cohesion = co, separation = se, curve = cu,
                         behavior = PStr (lit ''standard'')\<rparr>
                  else \<lparr>speed = sp, cohesion = co, separation = se, curve = cu,
                         behavior = be\<rparr>), interp = iv\<rparr>"
    unfolding Let_def ai_default_interp_def
    by (elim raising_Inr) (auto split: if_splits)
  from iv obtain ai where ai: "ai_data = PDict ai"
    and ivd: "iv = (case map_of ai (lit ''interpretation'') of
                      None \<Rightarrow> ai_default_interp emotion_text | Some y \<Rightarrow> y)"
    by (rule py_get_Inr)
  show thesis using that[OF js[unfolded ai] sp co se cu res[unfolded ivd]] .
qed

lemma parse_ai_response_valid:
  assumes "parse_ai_response json_loads float_of_str emotion_text response_text = Inr res"
  shows "valid_pattern (pattern res)"
proof -
  from assms obtain ai sp co se cu be v1 v2 v3 v4 where
    sp: "safe_float float_of_str v1 (PyFloat (Fin 1.0)) (PyFloat (Fin 0.2)) (PyFloat (Fin 2.0)) = Inr sp"
    and co: "safe_float float_of_str v2 (PyFloat (Fin 0.12)) (PyFloat (Fin 0.0)) (PyFloat (Fin 0.3)) = Inr co"
    and se: "safe_float float_of_str v3 (PyInt 25) (PyInt 10) (PyInt 60) = Inr se"
    and cu: "safe_float float_of_str v4 (PyFloat (Fin 0.3)) (PyFloat (Fin 0.0)) (PyFloat (Fin 1.0)) = Inr cu"
    and res: "res = \<lparr>pattern =
                 (if be \<notin> set valid_behaviors
                  then \<lparr>speed = sp, cohesion = co, separation = se, curve = cu,
                         behavior = PStr (lit ''standard'')\<rparr>
                  else \<lparr>speed = sp, cohesion = co, separation = se, curve = cu,
                         behavior = be\<rparr>),
                interp = (case map_of ai (lit ''interpretation'') of
                            None \<Rightarrow> ai_default_interp emotion_text | Some v \<Rightarrow> v)\<rparr>"
    by (rule parse_ai_response_Inr)
  have 1: "num_between sp 0.2 2.0"
    by (rule safe_float_between[OF _ _ _ _ sp]) (simp_all add: num_between_def)
  have 2: "num_between co 0.0 0.3"
    by (rule safe_float_between[OF _ _ _ _ co]) (simp_all add: num_between_def)
  have 3: "num_between se 10 60"
    by (rule safe_float_between[OF _ _ _ _ se]) (simp_all add: num_between_def)
  have 4: "num_between cu 0.0 1.0"
    by (rule safe_float_between[OF _ _ _ _ cu]) (simp_all add: num_between_def)
  have "valid_pattern (if be \<notin> set valid_behaviors
                  then \<lparr>speed = sp, cohesion = co, separation = se, curve = cu,
                         behavior = PStr (lit ''standard'')\<rparr>
                  else \<lparr>speed = sp, cohesion = co, separation = se, curve = cu,
                         behavior = be\<rparr>)"
    using 1 2 3 4 by (simp add: valid_pattern_def valid_behaviors_def)
  then show ?thesis by (simp add: res)
qed

text \<open>The interpretation of a normal return is the entry of the parsed dictionary under
  \<open>interpretation\<close>, or the templated default when there is none.\<close>

lemma parse_ai_response_interp:
  assumes "parse_ai_response json_loads float_of_str emotion_text response_text = Inr res"
  obtains ai where "json_loads (json_slice response_text) = Some (PDict ai)"
    and "interp res = (case map_of ai (lit ''interpretation'') of
                         None \<Rightarrow> ai_default_interp emotion_text | Some v \<Rightarrow> v)"
proof -
  from assms obtain ai sp co se cu be where
    js: "json_loads (json_slice response_text) = Some (PDict ai)"
    and res: "res = \<lparr>pattern =
                 (if be \<notin> set valid_behaviors
                  then \<lparr>speed = sp, cohesion = co, separation = se, curve = cu,
                         behavior = PStr (lit ''standard'')\<rparr>
                  else \<lparr>speed = sp, cohesion = co, separation = se, curve = cu,
                         behavior = be\<rparr>),
                interp = (case map_of ai (lit ''interpretation'') of
                            None \<Rightarrow> ai_default_interp emotion_text | Some v \<Rightarrow> v)\<rparr>"
    by (rule parse_ai_response_Inr)
  show thesis using that[OF js] by (simp add: res)
qed

text \<open>The exceptions that leave the \<^verbatim>\<open>try\<close> block are raised by Python itself, so
  printing them does not raise.\<close>

lemma parse_ai_response_Inl:
  assumes "parse_ai_response json_loads float_of_str emotion_text response_text = Inl e"
  shows "e = ValueError \<or> e = AttributeError \<or> e = OverflowError"
  using assms unfolding parse_ai_response_def Let_def
  by (auto split: if_splits option.splits elim!: raising_Inl
      dest!: py_get_Inl safe_float_raises_only_overflow)

lemma parse_ai_response_Inl_prints:
  assumes "parse_ai_response json_loads float_of_str emotion_text response_text = Inl e"
  shows "print_exn e = Inr ()"
  using parse_ai_response_Inl[OF assms] by auto

lemma unreducible_raises:
  "unreducible json_loads rt \<Longrightarrow> parse_ai_response json_loads float_of_str t rt = Inl ValueError"
  by (auto simp: unreducible_def parse_ai_response_def Let_def)

section \<open>The rule-based classifier\<close>

lemma any_in_iff: "any_in ws t \<longleftrightarrow> (\<exists>w \<in> set ws. sublist w t)"
  by (simp add: any_in_def list_ex_iff)

lemma hits_any_in: "hits unicode_lower ws t = any_in ws (py_lower unicode_lower t)"
  by (simp add: hits_def any_in_iff)

lemma simple_valid: "valid_pattern (pattern (analyze_emotion_simple unicode_lower t))"
  by (simp add: analyze_emotion_simple_def Let_def default_pattern_def valid_pattern_def
      num_between_def)

lemma simple_interp_nonempty: "nonempty_str (interp (analyze_emotion_simple unicode_lower t))"
  by (simp add: analyze_emotion_simple_def Let_def nonempty_str_def)

lemma simple_interp_prints:
  "printable t \<Longrightarrow> print_val (interp (analyze_emotion_simple unicode_lower t)) = Inr ()"
  by (simp add: analyze_emotion_simple_def Let_def py_print_def)

lemma ai_default_interp_nonempty: "nonempty_str (ai_default_interp t)"
  by (simp add: ai_default_interp_def nonempty_str_def)

lemma ai_default_interp_prints: "printable t \<Longrightarrow> print_val (ai_default_interp t) = Inr ()"
  by (simp add: ai_default_interp_def py_print_def)

section \<open>The AI pattern generator\<close>

lemma with_ai_client_raises:
  assumes "m (prompt t) = Inl e"
  shows "analyze_emotion_with_ai unicode_lower json_loads float_of_str m t = Inl e"
  using assms by (simp add: analyze_emotion_with_ai_def)

lemma with_ai_unprintable:
  assumes "m (prompt t) = Inr resp" and "\<not> printable (py_strip resp)"
  shows "analyze_emotion_with_ai unicode_lower json_loads float_of_str m t =
           Inl UnicodeEncodeError"
  using assms by (simp add: analyze_emotion_with_ai_def Let_def py_print_def)

lemma with_ai_parsed:
  assumes "m (prompt t) = Inr resp" and "printable (py_strip resp)"
    and "parse_ai_response json_loads float_of_str t (py_strip resp) = Inr r"
  shows "analyze_emotion_with_ai unicode_lower json_loads float_of_str m t = Inr r"
  using assms by (simp add: analyze_emotion_with_ai_def Let_def py_print_def)

lemma with_ai_recovers:
  assumes "m (prompt t) = Inr resp" and "printable (py_strip resp)"
    and "parse_ai_response json_loads float_of_str t (py_strip resp) = Inl e"
  shows "analyze_emotion_with_ai unicode_lower json_loads float_of_str m t =
           Inr (analyze_emotion_simple unicode_lower t)"
  using assms parse_ai_response_Inl_prints[OF assms(3)]
  by (simp add: analyze_emotion_with_ai_def Let_def py_print_def)


text \<open>The three ways the generator ends.\<close>

lemma with_ai_cases:
  obtains (client) e where "m (prompt t) = Inl e"
      and "analyze_emotion_with_ai unicode_lower json_loads float_of_str m t = Inl e"
    | (log) resp where "m (prompt t) = Inr resp" and "\<not> printable (py_strip resp)"
      and "analyze_emotion_with_ai unicode_lower json_loads float_of_str m t =
             Inl UnicodeEncodeError"
    | (parsed) resp r where "m (prompt t) = Inr resp" and "printable (py_strip resp)"
      and "parse_ai_response json_loads float_of_str t (py_strip resp) = Inr r"
      and "analyze_emotion_with_ai unicode_lower json_loads float_of_str m t = Inr r"
    | (recovered) resp e where "m (prompt t) = Inr resp" and "printable (py_strip resp)"
      and "parse_ai_response json_loads float_of_str t (py_strip resp) = Inl e"
      and "analyze_emotion_with_ai unicode_lower json_loads float_of_str m t =
             Inr (analyze_emotion_simple unicode_lower t)"
proof (cases "m (prompt t)")
  case (Inl e)
  then show ?thesis using client with_ai_client_raises by blast
next
  case (Inr resp)
  show ?thesis
  proof (cases "printable (py_strip resp)")
    case False
    then show ?thesis using log Inr with_ai_unprintable by blast
  next
    case True
    show ?thesis
    proof (cases "parse_ai_response json_loads float_of_str t (py_strip resp)")
      case (Inl e)
      then show ?thesis using recovered Inr True with_ai_recovers by blast
    next
      case r: (Inr r)
      then show ?thesis using parsed Inr True with_ai_parsed by blast
    qed
  qed
qed

lemma with_ai_valid:
  assumes "analyze_emotion_with_ai unicode_lower json_loads float_of_str m t = Inr res"
  shows "valid_pattern (pattern res)"
proof (cases rule: with_ai_cases[of m t unicode_lower json_loads float_of_str])
  case (client e)
  then show ?thesis using assms by simp
next
  case (log resp)
  then show ?thesis using assms by simp
next
  case (parsed resp r)
  then show ?thesis using assms parse_ai_response_valid by auto
next
  case (recovered resp e)
  then show ?thesis using assms simple_valid by auto
qed

section \<open>The body of the entry point\<close>


lemma resolve_no_model:
  assumes "printable t"
  shows "resolve unicode_lower json_loads float_of_str None t =
           Inr (analyze_emotion_simple unicode_lower t)"
  using assms simple_interp_prints[OF assms, of unicode_lower]
  by (simp add: resolve_def py_print_def)

lemma resolve_fallback:
  assumes "printable t"
    and "analyze_emotion_with_ai unicode_lower json_loads float_of_str m t = Inl e"
    and "print_exn e = Inr ()"
  shows "resolve unicode_lower json_loads float_of_str (Some m) t =
           Inr (analyze_emotion_simple unicode_lower t)"
  using assms simple_interp_prints[OF assms(1), of unicode_lower]
  by (simp add: resolve_def py_print_def)

lemma resolve_ai:
  assumes "printable t"
    and "analyze_emotion_with_ai unicode_lower json_loads float_of_str m t = Inr r"
  shows "resolve unicode_lower json_loads float_of_str (Some m) t =
           (case print_val (interp r) of Inl e \<Rightarrow> Inl e | Inr u \<Rightarrow> Inr r)"
  using assms by (simp add: resolve_def py_print_def raising_def)

lemma resolve_Inl:
  assumes "resolve unicode_lower json_loads float_of_str model t = Inl e"
  shows "e = UnicodeEncodeError"
  using assms unfolding resolve_def
  by (auto elim!: raising_Inl split: option.splits sum.splits
      dest: print_exn_Inl print_val_Inl simp: py_print_Inl)

lemma resolve_valid:
  assumes "resolve unicode_lower json_loads float_of_str model t = Inr r"
  shows "valid_pattern (pattern r)"
  using assms unfolding resolve_def
  by (auto elim!: raising_Inr split: option.splits sum.splits
      simp: simple_valid with_ai_valid)

lemma generate_emotion_pattern_resolve:
  assumes "map_of d (lit ''emotion'') = Some (PStr s)" and "py_strip s \<noteq> []"
  shows "generate_emotion_pattern unicode_lower json_loads float_of_str model (PDict d) =
           (case resolve unicode_lower json_loads float_of_str model (py_strip s) of
              Inl e \<Rightarrow> Err500 e
            | Inr pattern_data \<Rightarrow>
                Ok200 True (py_strip s) (pattern pattern_data) (interp pattern_data)
                  (model \<noteq> None))"
  using assms by (simp add: generate_emotion_pattern_def Let_def)

section \<open>The resolution entry point\<close>

text \<open>
  C1. For every request whose emotion text is non-empty after trimming, whatever the
  text-generation client does (absent, raising, or answering any text) and whatever the
  parsers make of its answer, a pattern that the entry point returns has speed in
  [0.2, 2.0], cohesion in [0.0, 0.3], separation in [10, 60], curve in [0.0, 1.0] and a
  behavior among standard, predator, swarm, spiral: the answer is 200 with such a
  pattern, or it is 500 for a failed \<^verbatim>\<open>print\<close> and holds no pattern. It is 200 with
  such a pattern whenever nothing that is printed holds a surrogate: the emotion text,
  the text of an exception of the client, and an interpretation that the AI JSON
  supplies.
\<close>

theorem resolved_pattern_in_range:
  assumes "map_of d (lit ''emotion'') = Some (PStr s)" and "py_strip s \<noteq> []"
  shows "((\<exists>p i u. generate_emotion_pattern unicode_lower json_loads float_of_str model
                     (PDict d) = Ok200 True (py_strip s) p i u \<and> valid_pattern p)
          \<or> generate_emotion_pattern unicode_lower json_loads float_of_str model (PDict d) =
              Err500 UnicodeEncodeError)
         \<and> (printable (py_strip s)
             \<and> (\<forall>m e. model = Some m \<longrightarrow> m (prompt (py_strip s)) = Inl e
                   \<longrightarrow> print_exn e = Inr ())
             \<and> (\<forall>m resp ai v. model = Some m \<longrightarrow> m (prompt (py_strip s)) = Inr resp
                   \<longrightarrow> json_loads (json_slice (py_strip resp)) = Some (PDict ai)
                   \<longrightarrow> map_of ai (lit ''interpretation'') = Some v
                   \<longrightarrow> print_val v = Inr ())
             \<longrightarrow> (\<exists>p i u. generate_emotion_pattern unicode_lower json_loads float_of_str model
                            (PDict d) = Ok200 True (py_strip s) p i u \<and> valid_pattern p))"
proof -
  let ?t = "py_strip s"
  let ?G = "generate_emotion_pattern unicode_lower json_loads float_of_str model (PDict d)"
  let ?R = "resolve unicode_lower json_loads float_of_str model ?t"
  have G: "?G = (case ?R of Inl e \<Rightarrow> Err500 e
                 | Inr pd \<Rightarrow> Ok200 True ?t (pattern pd) (interp pd) (model \<noteq> None))"
    by (rule generate_emotion_pattern_resolve[OF assms])
  have ok: "\<exists>p i u. ?G = Ok200 True ?t p i u \<and> valid_pattern p" if "?R = Inr r" for r
    using that resolve_valid[OF that] by (simp add: G)
  have first: "(\<exists>p i u. ?G = Ok200 True ?t p i u \<and> valid_pattern p)
               \<or> ?G = Err500 UnicodeEncodeError"
  proof (cases ?R)
    case (Inl e)
    then show ?thesis using resolve_Inl[OF Inl] by (simp add: G)
  next
    case (Inr r)
    then show ?thesis using ok by blast
  qed
  have second: "\<exists>p i u. ?G = Ok200 True ?t p i u \<and> valid_pattern p"
    if pt: "printable ?t"
      and pe: "\<forall>m e. model = Some m \<longrightarrow> m (prompt ?t) = Inl e \<longrightarrow> print_exn e = Inr ()"
      and pv: "\<forall>m resp ai v. model = Some m \<longrightarrow> m (prompt ?t) = Inr resp
                 \<longrightarrow> json_loads (json_slice (py_strip resp)) = Some (PDict ai)
                 \<longrightarrow> map_of ai (lit ''interpretation'') = Some v
                 \<longrightarrow> print_val v = Inr ()"
  proof (cases model)
    case None
    then show ?thesis using ok resolve_no_model[OF pt] by blast
  next
    case (Some m)
    show ?thesis
    proof (cases rule: with_ai_cases[of m ?t unicode_lower json_loads float_of_str])
      case (client e)
      then have "print_exn e = Inr ()" using pe Some by blast
      then show ?thesis using ok resolve_fallback[OF pt client(2)] Some by blast
    next
      case (log resp)
      have "print_exn UnicodeEncodeError = Inr ()" by simp
      then show ?thesis using ok resolve_fallback[OF pt log(3)] Some by blast
    next
      case (recovered resp e)
      have "?R = Inr (analyze_emotion_simple unicode_lower ?t)"
        using resolve_ai[OF pt recovered(4)] simple_interp_prints[OF pt, of unicode_lower]
          Some by simp
      then show ?thesis using ok by blast
    next
      case (parsed resp r)
      from parse_ai_response_interp[OF parsed(3)] obtain ai where
        js: "json_loads (json_slice (py_strip resp)) = Some (PDict ai)"
        and iv: "interp r = (case map_of ai (lit ''interpretation'') of
                               None \<Rightarrow> ai_default_interp ?t | Some v \<Rightarrow> v)"
        by blast
      have "print_val (interp r) = Inr ()"
      proof (cases "map_of ai (lit ''interpretation'')")
        case None
        then show ?thesis using iv ai_default_interp_prints[OF pt] by simp
      next
        case (Some v)
        then show ?thesis using iv pv \<open>model = Some m\<close> parsed(1) js by auto
      qed
      then have "?R = Inr r" using resolve_ai[OF pt parsed(4)] Some by simp
      then show ?thesis using ok by blast
    qed
  qed
  show ?thesis using first second by blast
qed

theorem resolved_pattern_in_range_witness:
  "map_of [(lit ''emotion'', PStr (lit '' happy ''))] (lit ''emotion'') =
     Some (PStr (lit '' happy '')) \<and>
   py_strip (lit '' happy '') \<noteq> [] \<and> printable (py_strip (lit '' happy '')) \<and>
   (\<exists>p i u. generate_emotion_pattern keep_case no_json no_float (Some garbage_model)
               (PDict [(lit ''emotion'', PStr (lit '' happy ''))]) =
              Ok200 True (py_strip (lit '' happy '')) p i u \<and> valid_pattern p)"
proof -
  have a: "map_of [(lit ''emotion'', PStr (lit '' happy ''))] (lit ''emotion'') =
             Some (PStr (lit '' happy ''))"
    by simp
  have s: "py_strip (lit '' happy '') = lit ''happy''"
    by (simp add: py_strip_def py_isspace_def lit_Cons lit_Nil)
  have b: "py_strip (lit '' happy '') \<noteq> []" by (simp add: s)
  have c: "printable (py_strip (lit '' happy ''))" by (simp add: s)
  have d: "\<forall>m e. Some garbage_model = Some m \<longrightarrow> m (prompt (py_strip (lit '' happy ''))) = Inl e
             \<longrightarrow> print_exn e = Inr ()"
    by (simp add: garbage_model_def)
  have e: "\<forall>m resp ai v. Some garbage_model = Some m
             \<longrightarrow> m (prompt (py_strip (lit '' happy ''))) = Inr resp
             \<longrightarrow> no_json (json_slice (py_strip resp)) = Some (PDict ai)
             \<longrightarrow> map_of ai (lit ''interpretation'') = Some v
             \<longrightarrow> print_val v = Inr ()"
    by (simp add: no_json_def)
  show ?thesis
    using a b c d e
      resolved_pattern_in_range[OF a b, of keep_case no_json no_float "Some garbage_model"]
    by blast
qed

text \<open>
  C5. A request whose emotion text is empty or consists of whitespace only is answered
  with the client error 400, and no pattern.
\<close>

theorem blank_emotion_rejected:
  assumes "map_of d (lit ''emotion'') = Some (PStr s)" and "\<forall>c \<in> set s. py_isspace c"
  shows "generate_emotion_pattern unicode_lower json_loads float_of_str model (PDict d) =
           Err400 (lit ''Please provide emotion text'')"
  using assms(1) strip_blank[OF assms(2)] by (simp add: generate_emotion_pattern_def)

theorem blank_emotion_rejected_witness:
  "generate_emotion_pattern keep_case no_json no_float (Some garbage_model) (request []) =
     Err400 (lit ''Please provide emotion text'') \<and>
   generate_emotion_pattern keep_case no_json no_float None (request (lit ''   '')) =
     Err400 (lit ''Please provide emotion text'')"
proof -
  have 1: "map_of [(lit ''emotion'', PStr [])] (lit ''emotion'') = Some (PStr [])" by simp
  have 2: "\<forall>c \<in> set ([] :: pystr). py_isspace c" by simp
  have 3: "map_of [(lit ''emotion'', PStr (lit ''   ''))] (lit ''emotion'') =
             Some (PStr (lit ''   ''))" by simp
  have 4: "\<forall>c \<in> set (lit ''   ''). py_isspace c"
    by (simp add: py_isspace_def lit_Cons lit_Nil)
  show ?thesis
    using blank_emotion_rejected[OF 1 2] blank_emotion_rejected[OF 3 4]
    by (simp add: request_def)
qed

lemma simple_so_happy:
  "analyze_emotion_simple unicode_lower (lit ''so happy'') =
     \<lparr>pattern = \<lparr>speed = PyFloat (Fin 1.3), cohesion = PyFloat (Fin 0.18),
                  separation = PyInt 25, curve = PyFloat (Fin 0.5),
                  behavior = PStr (lit ''swarm'')\<rparr>,
      interp = PStr (lit ''Joyful, bouncy, grouped movement'')\<rparr>"
proof -
  have l: "py_lower unicode_lower (lit ''so happy'') = lit ''so happy''"
    by (simp add: py_lower_def ascii_lower_def lit_Cons lit_Nil)
  have h: "\<not> any_in high_energy_words (lit ''so happy'')"
    "\<not> any_in anger_words (lit ''so happy'')"
    "\<not> any_in sadness_words (lit ''so happy'')"
    "\<not> any_in anxiety_words (lit ''so happy'')"
    "\<not> any_in love_words (lit ''so happy'')"
    "any_in joy_words (lit ''so happy'')"
    by (simp_all add: any_in_def high_energy_words_def anger_words_def sadness_words_def
        anxiety_words_def love_words_def joy_words_def sublist_Cons_right lit_Cons lit_Nil)
  show ?thesis
    unfolding analyze_emotion_simple_def Let_def l
    by (simp add: h default_pattern_def)
qed

lemma strip_so_happy: "py_strip (lit ''so happy'') = lit ''so happy''"
  by (simp add: py_strip_def py_isspace_def lit_Cons lit_Nil)

lemma garbage_unreducible:
  "unreducible no_json (py_strip (lit ''I am not sure what you mean.''))"
  by (simp add: unreducible_def no_json_def)

lemma garbage_printable: "printable (py_strip (lit ''I am not sure what you mean.''))"
  by (rule printable_strip) simp







text \<open>
  C2. The answer carries the flag \<open>ai_used\<close>, which is claimed to record the path that
  produced the pattern. The flag is computed as \<^verbatim>\<open>model is not None\<close>: with a client
  whose call raises, the generator raises, the rule-based classifier produces the pattern,
  and the flag still says that the AI was used.
\<close>

theorem ai_used_true_on_fallback:
  "analyze_emotion_with_ai unicode_lower no_json no_float failing_model (lit ''so happy'') =
     Inl (ServiceError (lit ''API key not valid'')) \<and>
   generate_emotion_pattern unicode_lower no_json no_float (Some failing_model)
     (request (lit ''so happy'')) =
     Ok200 True (lit ''so happy'')
       (pattern (analyze_emotion_simple unicode_lower (lit ''so happy'')))
       (interp (analyze_emotion_simple unicode_lower (lit ''so happy''))) True"
proof -
  have a: "analyze_emotion_with_ai unicode_lower no_json no_float failing_model
             (lit ''so happy'') = Inl (ServiceError (lit ''API key not valid''))"
    by (simp add: analyze_emotion_with_ai_def failing_model_def)
  have p: "printable (lit ''so happy'')" by simp
  have e: "print_exn (ServiceError (lit ''API key not valid'')) = Inr ()" by simp
  have m: "map_of [(lit ''emotion'', PStr (lit ''so happy''))] (lit ''emotion'') =
             Some (PStr (lit ''so happy''))" by simp
  have n: "py_strip (lit ''so happy'') \<noteq> []" by (simp add: strip_so_happy)
  have "generate_emotion_pattern unicode_lower no_json no_float (Some failing_model)
          (request (lit ''so happy'')) =
        Ok200 True (lit ''so happy'')
          (pattern (analyze_emotion_simple unicode_lower (lit ''so happy'')))
          (interp (analyze_emotion_simple unicode_lower (lit ''so happy''))) True"
    unfolding request_def
    by (simp add: generate_emotion_pattern_resolve[OF m n] strip_so_happy
        resolve_fallback[OF p a e])
  then show ?thesis using a by simp
qed

text \<open>
  C8. With no client configured, the request "furious and enraged" is answered with the
  anger pattern: behavior predator, speed 1.5, separation 45 (cohesion and curve at their
  defaults), and the flag \<open>ai_used\<close> is false.
\<close>

theorem furious_and_enraged:
  "generate_emotion_pattern unicode_lower json_loads float_of_str None
     (request (lit ''furious and enraged'')) =
     Ok200 True (lit ''furious and enraged'')
       \<lparr>speed = PyFloat (Fin 1.5), cohesion = PyFloat (Fin 0.12), separation = PyInt 45,
        curve = PyFloat (Fin 0.3), behavior = PStr (lit ''predator'')\<rparr>
       (PStr (lit ''Aggressive, confrontational movement'')) False"
proof -
  have s: "py_strip (lit ''furious and enraged'') = lit ''furious and enraged''"
    by (simp add: py_strip_def py_isspace_def lit_Cons lit_Nil)
  have l: "py_lower unicode_lower (lit ''furious and enraged'') = lit ''furious and enraged''"
    by (simp add: py_lower_def ascii_lower_def lit_Cons lit_Nil)
  have h: "\<not> any_in high_energy_words (lit ''furious and enraged'')"
    "any_in anger_words (lit ''furious and enraged'')"
    by (simp_all add: any_in_def high_energy_words_def anger_words_def sublist_Cons_right
        lit_Cons lit_Nil)
  have a: "analyze_emotion_simple unicode_lower (lit ''furious and enraged'') =
     \<lparr>pattern = \<lparr>speed = PyFloat (Fin 1.5), cohesion = PyFloat (Fin 0.12),
                  separation = PyInt 45, curve = PyFloat (Fin 0.3),
                  behavior = PStr (lit ''predator'')\<rparr>,
      interp = PStr (lit ''Aggressive, confrontational movement'')\<rparr>"
    unfolding analyze_emotion_simple_def Let_def l
    by (simp add: h default_pattern_def)
  have m: "map_of [(lit ''emotion'', PStr (lit ''furious and enraged''))] (lit ''emotion'') =
             Some (PStr (lit ''furious and enraged''))" by simp
  have n: "py_strip (lit ''furious and enraged'') \<noteq> []" by (simp add: s)
  have p: "printable (lit ''furious and enraged'')" by simp
  show ?thesis
    unfolding request_def
    by (simp add: generate_emotion_pattern_resolve[OF m n] s resolve_no_model[OF p] a)
qed

section \<open>First match wins\<close>



section \<open>The interpretation\<close>

lemma blank_response_parsed:
  "parse_ai_response blank_json no_float t blank_response =
     Inr \<lparr>pattern = \<lparr>speed = PyFloat (Fin 1.0), cohesion = PyFloat (Fin 0.12),
                      separation = PyFloat (Fin 25), curve = PyFloat (Fin 0.3),
                      behavior = PStr (lit ''standard'')\<rparr>,
          interp = PStr []\<rparr>"
proof -
  have f: "py_find blank_response (of_char (CHR ''{'')) = 0"
    by (simp add: blank_response_def lit_Cons lit_Nil)
  have r: "py_rfind blank_response (of_char (CHR ''}'')) + 1 = 22"
    by (simp add: blank_response_def Let_def lit_Cons lit_Nil)
  have sl: "py_slice blank_response 0 22 = blank_response"
    by (simp add: blank_response_def py_slice_def lit_Cons lit_Nil)
  have i: "int_to_float 25 = Inr (Fin 25)"
    using int_to_float_exact[of 25] by simp
  show ?thesis
    unfolding parse_ai_response_def f r Let_def
    by (simp add: sl blank_json_def safe_float_def i py_max_def py_min_def
        num_lt_def valid_behaviors_def)
qed

lemma blank_response_slice: "json_slice blank_response = blank_response"
  by (simp add: json_slice_def blank_response_def py_slice_def Let_def lit_Cons lit_Nil)

lemma blank_response_strip: "py_strip blank_response = blank_response"
  by (simp add: blank_response_def py_strip_def py_isspace_def lit_Cons lit_Nil)

lemma blank_response_printable: "printable blank_response"
  by (simp add: blank_response_def)

text \<open>
  C9. The interpretation of an answer is claimed to be non-empty, also when the AI JSON
  supplies its own. The generator returns whatever the JSON holds under
  \<open>interpretation\<close>: when the client answers \<^verbatim>\<open>{"interpretation": ""}\<close>, the answer of
  the entry point carries the empty string.
\<close>

theorem empty_interpretation_counterexample:
  "generate_emotion_pattern keep_case blank_json no_float (Some blank_model)
     (request (lit ''so happy'')) =
     Ok200 True (lit ''so happy'')
       \<lparr>speed = PyFloat (Fin 1.0), cohesion = PyFloat (Fin 0.12),
        separation = PyFloat (Fin 25), curve = PyFloat (Fin 0.3),
        behavior = PStr (lit ''standard'')\<rparr>
       (PStr []) True"
proof -
  have m: "map_of [(lit ''emotion'', PStr (lit ''so happy''))] (lit ''emotion'') =
             Some (PStr (lit ''so happy''))" by simp
  have n: "py_strip (lit ''so happy'') \<noteq> []" by (simp add: strip_so_happy)
  have p: "printable (lit ''so happy'')" by simp
  have a: "analyze_emotion_with_ai keep_case blank_json no_float blank_model (lit ''so happy'') =
     Inr \<lparr>pattern = \<lparr>speed = PyFloat (Fin 1.0), cohesion = PyFloat (Fin 0.12),
                      separation = PyFloat (Fin 25), curve = PyFloat (Fin 0.3),
                      behavior = PStr (lit ''standard'')\<rparr>,
          interp = PStr []\<rparr>"
    by (simp add: analyze_emotion_with_ai_def blank_model_def Let_def blank_response_strip
        blank_response_printable py_print_def blank_response_parsed)
  show ?thesis
    unfolding request_def
    by (simp add: generate_emotion_pattern_resolve[OF m n] strip_so_happy
        resolve_ai[OF p a] py_print_def)
qed

text \<open>
  C9, as the code has it, for a request whose emotion text is non-empty and holds no
  surrogate. The classifier's interpretation and the templated default are non-empty
  strings. The answer carries the classifier's interpretation when no client is
  configured, when the generator raises, and when the generator's \<^verbatim>\<open>try\<close> block fails.
  When the \<^verbatim>\<open>try\<close> block succeeds, the answer carries the templated default if the
  parsed JSON has no entry \<open>interpretation\<close>, and otherwise the value of that entry,
  unchanged, whatever it is. So the interpretation of a 200 answer is a non-empty string
  or the value the AI JSON supplies.
\<close>

theorem interpretation_of_answer:
  assumes "map_of d (lit ''emotion'') = Some (PStr s)" and "py_strip s \<noteq> []"
    and "printable (py_strip s)"
  shows
   "(let t = py_strip s;
         S = analyze_emotion_simple unicode_lower t;
         G = (\<lambda>model. generate_emotion_pattern unicode_lower json_loads float_of_str model
                         (PDict d));
         parsed = parse_ai_response json_loads float_of_str t (py_strip resp);
         supplied = map_of ai (lit ''interpretation'')
     in
     nonempty_str (interp S) \<and> nonempty_str (ai_default_interp t) \<and>
     G None = Ok200 True t (pattern S) (interp S) False \<and>
     (analyze_emotion_with_ai unicode_lower json_loads float_of_str m t = Inl e
        \<and> print_exn e = Inr () \<longrightarrow>
        G (Some m) = Ok200 True t (pattern S) (interp S) True) \<and>
     (m (prompt t) = Inr resp \<and> printable (py_strip resp) \<and> parsed = Inl e' \<longrightarrow>
        G (Some m) = Ok200 True t (pattern S) (interp S) True) \<and>
     (m (prompt t) = Inr resp \<and> printable (py_strip resp) \<and> parsed = Inr r
        \<and> json_loads (json_slice (py_strip resp)) = Some (PDict ai) \<and> supplied = None \<longrightarrow>
        G (Some m) = Ok200 True t (pattern r) (ai_default_interp t) True) \<and>
     (m (prompt t) = Inr resp \<and> printable (py_strip resp) \<and> parsed = Inr r
        \<and> json_loads (json_slice (py_strip resp)) = Some (PDict ai) \<and> supplied = Some v
        \<and> print_val v = Inr () \<longrightarrow>
        G (Some m) = Ok200 True t (pattern r) v True) \<and>
     (G model = Ok200 b t' p i u \<longrightarrow>
        nonempty_str i
        \<or> (\<exists>m' resp' r' ai'. model = Some m' \<and> m' (prompt t) = Inr resp'
              \<and> parse_ai_response json_loads float_of_str t (py_strip resp') = Inr r'
              \<and> json_loads (json_slice (py_strip resp')) = Some (PDict ai')
              \<and> map_of ai' (lit ''interpretation'') = Some i)))"
proof -
  let ?t = "py_strip s"
  let ?S = "analyze_emotion_simple unicode_lower ?t"
  let ?G = "\<lambda>model. generate_emotion_pattern unicode_lower json_loads float_of_str model
                      (PDict d)"
  let ?R = "resolve unicode_lower json_loads float_of_str"
  note pt = assms(3)
  have G: "?G model = (case ?R model ?t of Inl e \<Rightarrow> Err500 e
                 | Inr pd \<Rightarrow> Ok200 True ?t (pattern pd) (interp pd) (model \<noteq> None))"
    for model
    by (rule generate_emotion_pattern_resolve[OF assms(1,2)])
  have c1: "nonempty_str (interp ?S)" by (rule simple_interp_nonempty)
  have c2: "nonempty_str (ai_default_interp ?t)" by (rule ai_default_interp_nonempty)
  have c3: "?G None = Ok200 True ?t (pattern ?S) (interp ?S) False"
    by (simp add: G resolve_no_model[OF pt])
  have c4: "?G (Some m) = Ok200 True ?t (pattern ?S) (interp ?S) True"
    if "analyze_emotion_with_ai unicode_lower json_loads float_of_str m ?t = Inl e"
      "print_exn e = Inr ()"
    by (simp add: G resolve_fallback[OF pt that])
  have c5: "?G (Some m) = Ok200 True ?t (pattern ?S) (interp ?S) True"
    if "m (prompt ?t) = Inr resp" "printable (py_strip resp)"
      "parse_ai_response json_loads float_of_str ?t (py_strip resp) = Inl e'"
  proof -
    have "analyze_emotion_with_ai unicode_lower json_loads float_of_str m ?t = Inr ?S"
      using with_ai_recovers[where m = m and t = ?t and resp = resp and e = e'
          and json_loads = json_loads and float_of_str = float_of_str
          and unicode_lower = unicode_lower] that by simp
    then show ?thesis
      using resolve_ai[OF pt] simple_interp_prints[OF pt, of unicode_lower]
      by (simp add: G)
  qed
  have ai_path: "?G (Some m) = Ok200 True ?t (pattern r) (interp r) True"
    if "m (prompt ?t) = Inr resp" "printable (py_strip resp)"
      "parse_ai_response json_loads float_of_str ?t (py_strip resp) = Inr r"
      "print_val (interp r) = Inr ()"
  proof -
    have "analyze_emotion_with_ai unicode_lower json_loads float_of_str m ?t = Inr r"
      using with_ai_parsed[where m = m and t = ?t and resp = resp and r = r
          and json_loads = json_loads and float_of_str = float_of_str
          and unicode_lower = unicode_lower] that by simp
    then show ?thesis using resolve_ai[OF pt] that(4) by (simp add: G)
  qed
  have entry: "interp r = (case map_of ai (lit ''interpretation'') of
                             None \<Rightarrow> ai_default_interp ?t | Some v \<Rightarrow> v)"
    if "parse_ai_response json_loads float_of_str ?t (py_strip resp) = Inr r"
      "json_loads (json_slice (py_strip resp)) = Some (PDict ai)" for resp r ai
    using parse_ai_response_interp[OF that(1)] that(2) by auto
  have c6: "?G (Some m) = Ok200 True ?t (pattern r) (ai_default_interp ?t) True"
    if "m (prompt ?t) = Inr resp" "printable (py_strip resp)"
      "parse_ai_response json_loads float_of_str ?t (py_strip resp) = Inr r"
      "json_loads (json_slice (py_strip resp)) = Some (PDict ai)"
      "map_of ai (lit ''interpretation'') = None"
  proof -
    have i: "interp r = ai_default_interp ?t" using entry[OF that(3,4)] that(5) by simp
    show ?thesis
      using ai_path[OF that(1-3)] ai_default_interp_prints[OF pt] by (simp add: i)
  qed
  have c7: "?G (Some m) = Ok200 True ?t (pattern r) v True"
    if "m (prompt ?t) = Inr resp" "printable (py_strip resp)"
      "parse_ai_response json_loads float_of_str ?t (py_strip resp) = Inr r"
      "json_loads (json_slice (py_strip resp)) = Some (PDict ai)"
      "map_of ai (lit ''interpretation'') = Some v" "print_val v = Inr ()"
  proof -
    have i: "interp r = v" using entry[OF that(3,4)] that(5) by simp
    show ?thesis using ai_path[OF that(1-3)] that(6) by (simp add: i)
  qed
  have c8: "nonempty_str i
        \<or> (\<exists>m' resp' r' ai'. model = Some m' \<and> m' (prompt ?t) = Inr resp'
              \<and> parse_ai_response json_loads float_of_str ?t (py_strip resp') = Inr r'
              \<and> json_loads (json_slice (py_strip resp')) = Some (PDict ai')
              \<and> map_of ai' (lit ''interpretation'') = Some i)"
    if ok: "?G model = Ok200 b t' p i u"
  proof (cases model)
    case None
    then show ?thesis using ok c3 c1 by auto
  next
    case (Some m')
    show ?thesis
    proof (cases rule: with_ai_cases[of m' ?t unicode_lower json_loads float_of_str])
      case (client e)
      then have "?R (Some m') ?t = Inr ?S \<or> (\<exists>x. ?R (Some m') ?t = Inl x)"
        by (cases "?R (Some m') ?t")
           (auto simp: resolve_def py_print_def simple_interp_prints[OF pt] pt
             elim!: raising_Inr split: sum.splits)
      then show ?thesis using ok Some c1 by (auto simp: G)
    next
      case (log resp')
      have "?R (Some m') ?t = Inr ?S"
        using resolve_fallback[OF pt log(3)] by simp
      then show ?thesis using ok Some c1 by (auto simp: G)
    next
      case (recovered resp' e)
      have "?R (Some m') ?t = Inr ?S"
        using resolve_ai[OF pt recovered(4)] simple_interp_prints[OF pt, of unicode_lower]
        by simp
      then show ?thesis using ok Some c1 by (auto simp: G)
    next
      case (parsed resp' r')
      from parse_ai_response_interp[OF parsed(3)] obtain ai' where
        js: "json_loads (json_slice (py_strip resp')) = Some (PDict ai')"
        and iv: "interp r' = (case map_of ai' (lit ''interpretation'') of
                               None \<Rightarrow> ai_default_interp ?t | Some v \<Rightarrow> v)"
        by blast
      have "i = interp r'"
        using ok Some resolve_ai[OF pt parsed(4)]
        by (auto simp: G split: sum.splits)
      then show ?thesis
        using iv js parsed(1,3) Some c2 by (cases "map_of ai' (lit ''interpretation'')") auto
    qed
  qed
  show ?thesis
    unfolding Let_def
    using c1 c2 c3 c4 c5 c6 c7 c8 by blast
qed

lemma bare_response_parsed:
  "parse_ai_response bare_json no_float t (lit ''{}'') =
     Inr \<lparr>pattern = \<lparr>speed = PyFloat (Fin 1.0), cohesion = PyFloat (Fin 0.12),
                      separation = PyFloat (Fin 25), curve = PyFloat (Fin 0.3),
                      behavior = PStr (lit ''standard'')\<rparr>,
          interp = ai_default_interp t\<rparr>"
proof -
  have f: "py_find (lit ''{}'') (of_char (CHR ''{'')) = 0"
    by (simp add: lit_Cons lit_Nil)
  have r: "py_rfind (lit ''{}'') (of_char (CHR ''}'')) + 1 = 2"
    by (simp add: Let_def lit_Cons lit_Nil)
  have sl: "py_slice (lit ''{}'') 0 2 = lit ''{}''"
    by (simp add: py_slice_def lit_Cons lit_Nil)
  have i: "int_to_float 25 = Inr (Fin 25)"
    using int_to_float_exact[of 25] by simp
  show ?thesis
    unfolding parse_ai_response_def f r Let_def
    by (simp add: sl bare_json_def safe_float_def i py_max_def py_min_def
        num_lt_def valid_behaviors_def ai_default_interp_def)
qed

lemma bare_response_slice: "json_slice (lit ''{}'') = lit ''{}''"
  by (simp add: json_slice_def py_slice_def Let_def lit_Cons lit_Nil)

lemma bare_response_strip: "py_strip (lit ''{}'') = lit ''{}''"
  by (simp add: py_strip_def py_isspace_def lit_Cons lit_Nil)

theorem interpretation_of_answer_witness:
  "map_of [(lit ''emotion'', PStr (lit ''so happy''))] (lit ''emotion'') =
     Some (PStr (lit ''so happy'')) \<and>
   py_strip (lit ''so happy'') \<noteq> [] \<and> printable (py_strip (lit ''so happy'')) \<and>
   generate_emotion_pattern keep_case no_json no_float None (request (lit ''so happy'')) =
     Ok200 True (lit ''so happy'')
       \<lparr>speed = PyFloat (Fin 1.3), cohesion = PyFloat (Fin 0.18), separation = PyInt 25,
        curve = PyFloat (Fin 0.5), behavior = PStr (lit ''swarm'')\<rparr>
       (PStr (lit ''Joyful, bouncy, grouped movement'')) False \<and>
   blank_model (prompt (lit ''so happy'')) = Inr blank_response \<and>
   printable (py_strip blank_response) \<and>
   blank_json (json_slice (py_strip blank_response)) =
     Some (PDict [(lit ''interpretation'', PStr [])]) \<and>
   print_val (PStr []) = Inr () \<and>
   generate_emotion_pattern keep_case blank_json no_float (Some blank_model)
     (request (lit ''so happy'')) =
     Ok200 True (lit ''so happy'')
       \<lparr>speed = PyFloat (Fin 1.0), cohesion = PyFloat (Fin 0.12),
        separation = PyFloat (Fin 25), curve = PyFloat (Fin 0.3),
        behavior = PStr (lit ''standard'')\<rparr>
       (PStr []) True \<and>
   bare_model (prompt (lit ''so happy'')) = Inr (lit ''{}'') \<and>
   bare_json (json_slice (py_strip (lit ''{}''))) = Some (PDict []) \<and>
   generate_emotion_pattern keep_case bare_json no_float (Some bare_model)
     (request (lit ''so happy'')) =
     Ok200 True (lit ''so happy'')
       \<lparr>speed = PyFloat (Fin 1.0), cohesion = PyFloat (Fin 0.12),
        separation = PyFloat (Fin 25), curve = PyFloat (Fin 0.3),
        behavior = PStr (lit ''standard'')\<rparr>
       (ai_default_interp (lit ''so happy'')) True \<and>
   nonempty_str (ai_default_interp (lit ''so happy'')) \<and>
   garbage_model (prompt (lit ''so happy'')) = Inr (lit ''I am not sure what you mean.'') \<and>
   parse_ai_response no_json no_float (lit ''so happy'')
     (py_strip (lit ''I am not sure what you mean.'')) = Inl ValueError \<and>
   generate_emotion_pattern keep_case no_json no_float (Some garbage_model)
     (request (lit ''so happy'')) =
     Ok200 True (lit ''so happy'')
       \<lparr>speed = PyFloat (Fin 1.3), cohesion = PyFloat (Fin 0.18), separation = PyInt 25,
        curve = PyFloat (Fin 0.5), behavior = PStr (lit ''swarm'')\<rparr>
       (PStr (lit ''Joyful, bouncy, grouped movement'')) True"
proof -
  let ?t = "lit ''so happy''"
  have 1: "map_of [(lit ''emotion'', PStr ?t)] (lit ''emotion'') = Some (PStr ?t)" by simp
  have 2: "py_strip ?t \<noteq> []" by (simp add: strip_so_happy)
  have 3: "printable (py_strip ?t)" by (simp add: strip_so_happy)
  have bm: "blank_model (prompt ?t) = Inr blank_response" by (simp add: blank_model_def)
  have bp: "printable (py_strip blank_response)"
    by (simp add: blank_response_strip blank_response_printable)
  have bj: "blank_json (json_slice (py_strip blank_response)) =
              Some (PDict [(lit ''interpretation'', PStr [])])"
    by (simp add: blank_response_strip blank_response_slice blank_json_def)
  have pv: "print_val (PStr []) = Inr ()" by (simp add: py_print_def)
  have em: "bare_model (prompt ?t) = Inr (lit ''{}'')" by (simp add: bare_model_def)
  have ej: "bare_json (json_slice (py_strip (lit ''{}''))) = Some (PDict [])"
    by (simp add: bare_response_strip bare_response_slice bare_json_def)
  have gm: "garbage_model (prompt ?t) = Inr (lit ''I am not sure what you mean.'')"
    by (simp add: garbage_model_def)
  have gp: "parse_ai_response no_json no_float ?t
              (py_strip (lit ''I am not sure what you mean.'')) = Inl ValueError"
    by (rule unreducible_raises[OF garbage_unreducible])
  have none: "generate_emotion_pattern keep_case no_json no_float None (request ?t) =
     Ok200 True ?t
       \<lparr>speed = PyFloat (Fin 1.3), cohesion = PyFloat (Fin 0.18), separation = PyInt 25,
        curve = PyFloat (Fin 0.5), behavior = PStr (lit ''swarm'')\<rparr>
       (PStr (lit ''Joyful, bouncy, grouped movement'')) False"
    using interpretation_of_answer[OF 1 2 3, where unicode_lower = keep_case
        and json_loads = no_json and float_of_str = no_float]
    by (simp add: Let_def request_def strip_so_happy simple_so_happy)
  have blank: "generate_emotion_pattern keep_case blank_json no_float (Some blank_model)
     (request ?t) =
     Ok200 True ?t
       \<lparr>speed = PyFloat (Fin 1.0), cohesion = PyFloat (Fin 0.12),
        separation = PyFloat (Fin 25), curve = PyFloat (Fin 0.3),
        behavior = PStr (lit ''standard'')\<rparr>
       (PStr []) True"
    using interpretation_of_answer[OF 1 2 3, where unicode_lower = keep_case
        and json_loads = blank_json and float_of_str = no_float and m = blank_model
        and resp = blank_response and ai = "[(lit ''interpretation'', PStr [])]"
        and v = "PStr []"
        and r = "\<lparr>pattern = \<lparr>speed = PyFloat (Fin 1.0), cohesion = PyFloat (Fin 0.12),
                      separation = PyFloat (Fin 25), curve = PyFloat (Fin 0.3),
                      behavior = PStr (lit ''standard'')\<rparr>,
          interp = PStr []\<rparr>"]
      bp bj
    by (simp add: Let_def request_def strip_so_happy blank_model_def blank_response_strip
        blank_response_parsed py_print_def)
  have bare: "generate_emotion_pattern keep_case bare_json no_float (Some bare_model)
     (request ?t) =
     Ok200 True ?t
       \<lparr>speed = PyFloat (Fin 1.0), cohesion = PyFloat (Fin 0.12),
        separation = PyFloat (Fin 25), curve = PyFloat (Fin 0.3),
        behavior = PStr (lit ''standard'')\<rparr>
       (ai_default_interp ?t) True"
    using interpretation_of_answer[OF 1 2 3, where unicode_lower = keep_case
        and json_loads = bare_json and float_of_str = no_float and m = bare_model
        and resp = "lit ''{}''" and ai = "[]"
        and r = "\<lparr>pattern = \<lparr>speed = PyFloat (Fin 1.0), cohesion = PyFloat (Fin 0.12),
                      separation = PyFloat (Fin 25), curve = PyFloat (Fin 0.3),
                      behavior = PStr (lit ''standard'')\<rparr>,
          interp = ai_default_interp ?t\<rparr>"]
      ej
    by (simp add: Let_def request_def strip_so_happy bare_model_def bare_response_strip
        bare_response_parsed)
  have ne: "nonempty_str (ai_default_interp ?t)"
    using interpretation_of_answer[OF 1 2 3, where unicode_lower = keep_case
        and json_loads = no_json and float_of_str = no_float]
    by (simp add: Let_def strip_so_happy)
  have garbage: "generate_emotion_pattern keep_case no_json no_float (Some garbage_model)
     (request ?t) =
     Ok200 True ?t
       \<lparr>speed = PyFloat (Fin 1.3), cohesion = PyFloat (Fin 0.18), separation = PyInt 25,
        curve = PyFloat (Fin 0.5), behavior = PStr (lit ''swarm'')\<rparr>
       (PStr (lit ''Joyful, bouncy, grouped movement'')) True"
    using interpretation_of_answer[OF 1 2 3, where unicode_lower = keep_case
        and json_loads = no_json and float_of_str = no_float and m = garbage_model
        and resp = "lit ''I am not sure what you mean.''" and e' = ValueError]
      gp garbage_printable
    by (simp add: Let_def request_def strip_so_happy simple_so_happy garbage_model_def)
  show ?thesis
    using 1 2 3 none bm bp bj pv blank em ej bare ne gm gp garbage by blast
qed

section \<open>Frame conditions of the classifier\<close>

text \<open>
  C10. Each category overrides the fields it lists and leaves the others at the default
  pattern: anger (with no high-energy keyword) keeps cohesion 0.12 and curve 0.3, and so
  on for each category in the order of the chain; a text that matches no category gets
  the default pattern. \<open>L\<close> is the Unicode case mapping, any function.
\<close>

theorem classifier_frame:
  "(let p = pattern (analyze_emotion_simple L t) in
    (hits L high_energy_words t \<longrightarrow>
       cohesion p = PyFloat (Fin 0.12) \<and> separation p = PyInt 25) \<and>
    (\<not> hits L high_energy_words t \<and> hits L anger_words t \<longrightarrow>
       cohesion p = PyFloat (Fin 0.12) \<and> curve p = PyFloat (Fin 0.3)) \<and>
    (\<not> hits L high_energy_words t \<and> \<not> hits L anger_words t \<and> hits L sadness_words t \<longrightarrow>
       separation p = PyInt 25 \<and> behavior p = PStr (lit ''standard'')) \<and>
    (\<not> hits L high_energy_words t \<and> \<not> hits L anger_words t \<and> \<not> hits L sadness_words t \<and>
     hits L anxiety_words t \<longrightarrow>
       cohesion p = PyFloat (Fin 0.12)) \<and>
    (\<not> hits L high_energy_words t \<and> \<not> hits L anger_words t \<and> \<not> hits L sadness_words t \<and>
     \<not> hits L anxiety_words t \<and> hits L love_words t \<longrightarrow>
       curve p = PyFloat (Fin 0.3)) \<and>
    (\<not> hits L high_energy_words t \<and> \<not> hits L anger_words t \<and> \<not> hits L sadness_words t \<and>
     \<not> hits L anxiety_words t \<and> \<not> hits L love_words t \<and> hits L joy_words t \<longrightarrow>
       separation p = PyInt 25) \<and>
    (\<not> hits L high_energy_words t \<and> \<not> hits L anger_words t \<and> \<not> hits L sadness_words t \<and>
     \<not> hits L anxiety_words t \<and> \<not> hits L love_words t \<and> \<not> hits L joy_words t \<and>
     hits L calm_words t \<longrightarrow>
       separation p = PyInt 25 \<and> behavior p = PStr (lit ''standard'')) \<and>
    (\<not> hits L high_energy_words t \<and> \<not> hits L anger_words t \<and> \<not> hits L sadness_words t \<and>
     \<not> hits L anxiety_words t \<and> \<not> hits L love_words t \<and> \<not> hits L joy_words t \<and>
     \<not> hits L calm_words t \<and> hits L confusion_words t \<longrightarrow>
       cohesion p = PyFloat (Fin 0.12)) \<and>
    (\<not> hits L high_energy_words t \<and> \<not> hits L anger_words t \<and> \<not> hits L sadness_words t \<and>
     \<not> hits L anxiety_words t \<and> \<not> hits L love_words t \<and> \<not> hits L joy_words t \<and>
     \<not> hits L calm_words t \<and> \<not> hits L confusion_words t \<longrightarrow>
       p = default_pattern))"
  by (simp add: hits_any_in analyze_emotion_simple_def Let_def default_pattern_def)

theorem classifier_frame_witness:
  "\<not> hits keep_case high_energy_words (lit ''angry'') \<and>
   hits keep_case anger_words (lit ''angry'') \<and>
   cohesion (pattern (analyze_emotion_simple keep_case (lit ''angry''))) = PyFloat (Fin 0.12) \<and>
   curve (pattern (analyze_emotion_simple keep_case (lit ''angry''))) = PyFloat (Fin 0.3) \<and>
   hits keep_case high_energy_words (lit ''wild'') \<and>
   cohesion (pattern (analyze_emotion_simple keep_case (lit ''wild''))) = PyFloat (Fin 0.12) \<and>
   separation (pattern (analyze_emotion_simple keep_case (lit ''wild''))) = PyInt 25 \<and>
   \<not> hits keep_case high_energy_words (lit ''zen'') \<and>
   \<not> hits keep_case anger_words (lit ''zen'') \<and>
   \<not> hits keep_case sadness_words (lit ''zen'') \<and>
   \<not> hits keep_case anxiety_words (lit ''zen'') \<and>
   \<not> hits keep_case love_words (lit ''zen'') \<and>
   \<not> hits keep_case joy_words (lit ''zen'') \<and>
   hits keep_case calm_words (lit ''zen'') \<and>
   separation (pattern (analyze_emotion_simple keep_case (lit ''zen''))) = PyInt 25 \<and>
   behavior (pattern (analyze_emotion_simple keep_case (lit ''zen''))) =
     PStr (lit ''standard'')"
proof -
  have a: "\<not> hits keep_case high_energy_words (lit ''angry'')"
    "hits keep_case anger_words (lit ''angry'')"
    by (simp_all add: hits_def py_lower_def ascii_lower_def high_energy_words_def
        anger_words_def sublist_Cons_right lit_Cons lit_Nil)
  have w: "hits keep_case high_energy_words (lit ''wild'')"
    by (simp add: hits_def py_lower_def ascii_lower_def high_energy_words_def
        sublist_Cons_right lit_Cons lit_Nil)
  have z: "\<not> hits keep_case high_energy_words (lit ''zen'')"
    "\<not> hits keep_case anger_words (lit ''zen'')"
    "\<not> hits keep_case sadness_words (lit ''zen'')"
    "\<not> hits keep_case anxiety_words (lit ''zen'')"
    "\<not> hits keep_case love_words (lit ''zen'')"
    "\<not> hits keep_case joy_words (lit ''zen'')"
    "hits keep_case calm_words (lit ''zen'')"
    by (simp_all add: hits_def py_lower_def ascii_lower_def high_energy_words_def
        anger_words_def sadness_words_def anxiety_words_def love_words_def joy_words_def
        calm_words_def sublist_Cons_right lit_Cons lit_Nil)
  show ?thesis
    using a w z classifier_frame[of keep_case "lit ''angry''"]
      classifier_frame[of keep_case "lit ''wild''"]
      classifier_frame[of keep_case "lit ''zen''"]
    by (simp add: Let_def)
qed

end
